theory Spec2Isabelle
  imports Complex_Main "HOL-Library.Sublist"
begin

section \<open>The request handler of app.py, as HOL functions\<close>

text \<open>
  The repository is one Flask handler, \<^verbatim>\<open>index\<close>, over a table loaded at start-up and
  a directions client. The handler is embedded block by block, in the order of the
  source: the text operations on the search term, the filter over the table, the two
  enrichment loops, and the choice of the map centre.

  Conventions of the embedding.
  \<^item> Text is \<open>string\<close> and is read as ASCII: \<open>strip\<close> and \<open>lower\<close> act on the ASCII
    white space and the ASCII letters; other characters are left alone.
  \<^item> Python's \<open>None\<close> is \<open>None\<close> of an option type, or \<open>JNull\<close> inside a decoded
    JSON document.
  \<^item> An exception is a value of \<open>py_exception\<close>; a block that can raise returns a sum
    with the exception on the left.
  \<^item> Coordinates are real numbers and the mean of coordinates is the exact mean: the
    last-bit rounding of the floating-point sum is not represented. The two travel
    texts are strings whose digits depend on the rounding of the quotient, so there the
    binary rounding is represented (\<open>RN\<close> below). Infinities, NaN and the negative
    zero are not represented.
\<close>

subsection \<open>Text: \<open>str.strip\<close>, \<open>str.lower\<close>, \<open>str.upper\<close>, \<open>in\<close>\<close>

text \<open>
  The white space of \<open>str.strip\<close> in ASCII: tab, line feed, vertical tab, form feed,
  carriage return (codes 9 to 13), the four separators (28 to 31) and the space (32).
\<close>

definition is_space :: "char \<Rightarrow> bool" where
  "is_space c \<longleftrightarrow> (let n = (of_char c :: nat) in (9 \<le> n \<and> n \<le> 13) \<or> (28 \<le> n \<and> n \<le> 32))"

definition strip :: "string \<Rightarrow> string" where
  "strip s = rev (dropWhile is_space (rev (dropWhile is_space s)))"

text \<open>The letters A to Z have the codes 65 to 90, the letters a to z the codes 97 to 122.\<close>

definition lower_char :: "char \<Rightarrow> char" where
  "lower_char c = (let n = (of_char c :: nat) in if 65 \<le> n \<and> n \<le> 90 then char_of (n + 32) else c)"

definition upper_char :: "char \<Rightarrow> char" where
  "upper_char c = (let n = (of_char c :: nat) in if 97 \<le> n \<and> n \<le> 122 then char_of (n - 32) else c)"

definition lower :: "string \<Rightarrow> string" where
  "lower s = map lower_char s"

definition upper :: "string \<Rightarrow> string" where
  "upper s = map upper_char s"

text \<open>\<open>pat in s\<close> of Python: \<open>pat\<close> occurs in \<open>s\<close> as a contiguous block.\<close>

fun str_in :: "string \<Rightarrow> string \<Rightarrow> bool" where
  "str_in pat [] = (pat = [])"
| "str_in pat (c # cs) = (prefix pat (c # cs) \<or> str_in pat cs)"

subsection \<open>Integers as text\<close>

definition digit_char :: "nat \<Rightarrow> char" where
  "digit_char d = ''0123456789'' ! d"

fun str_nat :: "nat \<Rightarrow> string" where
  "str_nat n = (if n < 10 then [digit_char n] else str_nat (n div 10) @ [digit_char (n mod 10)])"

declare str_nat.simps [simp del]

definition str_int :: "int \<Rightarrow> string" where
  "str_int i = (if i < 0 then CHR ''-'' # str_nat (nat (- i)) else str_nat (nat i))"

subsection \<open>Binary floating point: rounding to the nearest double\<close>

definition round_half_even :: "real \<Rightarrow> int" where
  "round_half_even y =
     (let f = \<lfloor>y\<rfloor>; r = y - of_int f
      in if r < 1 / 2 then f else if 1 / 2 < r then f + 1 else if even f then f else f + 1)"

definition pow2 :: "int \<Rightarrow> real" where
  "pow2 k = (if 0 \<le> k then 2 ^ nat k else 1 / 2 ^ nat (- k))"

text \<open>
  The binary exponent of a positive number: the \<open>e\<close> with \<open>2 ^ e \<le> x < 2 ^ (e + 1)\<close>,
  found by halving or doubling \<open>x\<close> until it lies between 1 and 2.
\<close>

function binary_exponent :: "real \<Rightarrow> int" where
  "binary_exponent x =
     (if 2 \<le> x then binary_exponent (x / 2) + 1
      else if 0 < x \<and> x < 1 then binary_exponent (2 * x) - 1
      else 0)"
  by pat_completeness auto
termination
proof (relation "measure (\<lambda>x. nat \<bar>\<lfloor>log 2 x\<rfloor>\<bar>)")
  show "wf (measure (\<lambda>x. nat \<bar>\<lfloor>log 2 x\<rfloor>\<bar>))" by simp
next
  fix x :: real
  assume x: "2 \<le> x"
  then have "1 \<le> log 2 x" by (simp add: le_log_iff)
  then have "1 \<le> \<lfloor>log 2 x\<rfloor>" by linarith
  moreover have "log 2 (x / 2) = log 2 x - 1"
    using x by (simp add: log_divide)
  ultimately show "(x / 2, x) \<in> measure (\<lambda>x. nat \<bar>\<lfloor>log 2 x\<rfloor>\<bar>)" by simp
next
  fix x :: real
  assume x: "0 < x \<and> x < 1"
  then have "log 2 x < 0" by simp
  then have "\<lfloor>log 2 x\<rfloor> \<le> - 1" by linarith
  moreover have "log 2 (2 * x) = 1 + log 2 x"
    using x by (simp add: log_mult)
  ultimately show "(2 * x, x) \<in> measure (\<lambda>x. nat \<bar>\<lfloor>log 2 x\<rfloor>\<bar>)" by simp
qed

declare binary_exponent.simps [simp del]

text \<open>
  \<open>RN x\<close> is the double nearest to \<open>x\<close>, ties to the even significand: with
  \<open>2 ^ e \<le> |x| < 2 ^ (e + 1)\<close>, the doubles around \<open>x\<close> are the multiples of
  \<open>2 ^ (e - 52)\<close>. The exponent range is not bounded here; the one place of the
  handler where a quotient can leave the range of the doubles is the division of an
  integer, and it is checked there (\<open>int_true_div_1000\<close>).
\<close>

definition RN :: "real \<Rightarrow> real" where
  "RN x = (if x = 0 then 0
           else let u = pow2 (binary_exponent \<bar>x\<bar> - 52) in of_int (round_half_even (x / u)) * u)"

text \<open>The format \<^verbatim>\<open>:.2f\<close>: the decimal with two places nearest to the value, ties to even.\<close>

definition format_2f :: "real \<Rightarrow> string" where
  "format_2f v =
     (let q = nat (round_half_even (\<bar>v\<bar> * 100))
      in (if v < 0 then ''-'' else []) @ str_nat (q div 100) @ ''.'' @
         [digit_char (q div 10 mod 10), digit_char (q mod 10)])"

subsection \<open>Decoded JSON and the Python operations the handler applies to it\<close>

datatype json =
    JNull
  | JBool bool
  | JInt int
  | JFloat real
  | JStr string
  | JArr "json list"
  | JObj "(string \<times> json) list"

text \<open>
  \<open>JObj\<close> lists the items of a \<^verbatim>\<open>dict\<close>; its keys are taken to be distinct, and
  \<open>map_of\<close> looks a key up. The exceptions carry the text that \<^verbatim>\<open>str(e)\<close> gives; the
  wording of the texts raised by the interpreter follows CPython 3.
\<close>

datatype py_exception =
    MapboxAPIError string
  | AttributeError string
  | TypeError string
  | KeyError string
  | IndexError string
  | OverflowError string
  | OtherException string

fun str_exception :: "py_exception \<Rightarrow> string" where
  "str_exception (MapboxAPIError m) = m"
| "str_exception (AttributeError m) = m"
| "str_exception (TypeError m) = m"
| "str_exception (KeyError m) = m"
| "str_exception (IndexError m) = m"
| "str_exception (OverflowError m) = m"
| "str_exception (OtherException m) = m"

fun type_name :: "json \<Rightarrow> string" where
  "type_name JNull = ''NoneType''"
| "type_name (JBool _) = ''bool''"
| "type_name (JInt _) = ''int''"
| "type_name (JFloat _) = ''float''"
| "type_name (JStr _) = ''str''"
| "type_name (JArr _) = ''list''"
| "type_name (JObj _) = ''dict''"

text \<open>A name between single quotes, as the interpreter's messages show it.\<close>

definition quoted :: "string \<Rightarrow> string" where
  "quoted s = [CHR 0x27] @ s @ [CHR 0x27]"

fun truthy :: "json \<Rightarrow> bool" where
  "truthy JNull = False"
| "truthy (JBool b) = b"
| "truthy (JInt n) = (n \<noteq> 0)"
| "truthy (JFloat x) = (x \<noteq> 0)"
| "truthy (JStr s) = (s \<noteq> [])"
| "truthy (JArr xs) = (xs \<noteq> [])"
| "truthy (JObj kvs) = (kvs \<noteq> [])"

text \<open>\<^verbatim>\<open>x.get(key, default)\<close>; \<^verbatim>\<open>x.get(key)\<close> is the case \<open>default = JNull\<close>.\<close>

fun dict_get_default :: "json \<Rightarrow> string \<Rightarrow> json \<Rightarrow> py_exception + json" where
  "dict_get_default (JObj kvs) key dflt = Inr (case map_of kvs key of Some v \<Rightarrow> v | None \<Rightarrow> dflt)"
| "dict_get_default x key dflt =
     Inl (AttributeError (quoted (type_name x) @ '' object has no attribute '' @ quoted ''get''))"

definition dict_get :: "json \<Rightarrow> string \<Rightarrow> py_exception + json" where
  "dict_get x key = dict_get_default x key JNull"

text \<open>\<^verbatim>\<open>x[key]\<close> with a text key.\<close>

fun subscript_key :: "json \<Rightarrow> string \<Rightarrow> py_exception + json" where
  "subscript_key (JObj kvs) key =
     (case map_of kvs key of Some v \<Rightarrow> Inr v | None \<Rightarrow> Inl (KeyError (quoted key)))"
| "subscript_key (JArr xs) key = Inl (TypeError ''list indices must be integers or slices, not str'')"
| "subscript_key (JStr s) key = Inl (TypeError ''string indices must be integers'')"
| "subscript_key x key = Inl (TypeError (quoted (type_name x) @ '' object is not subscriptable''))"

text \<open>\<^verbatim>\<open>x[0]\<close>.\<close>

fun subscript_0 :: "json \<Rightarrow> py_exception + json" where
  "subscript_0 (JArr []) = Inl (IndexError ''list index out of range'')"
| "subscript_0 (JArr (x # xs)) = Inr x"
| "subscript_0 (JStr []) = Inl (IndexError ''string index out of range'')"
| "subscript_0 (JStr (c # cs)) = Inr (JStr [c])"
| "subscript_0 (JObj kvs) = Inl (KeyError ''0'')"
| "subscript_0 x = Inl (TypeError (quoted (type_name x) @ '' object is not subscriptable''))"

text \<open>
  \<^verbatim>\<open>x // 60\<close> on a double, as CPython computes it: the remainder \<open>fmod x 60\<close> is exact
  and has the sign of \<open>x\<close>; the quotient is the rounded \<open>(x - mod) / 60\<close>, lowered by
  one when the remainder is negative, and snapped to the nearest integer.
\<close>

definition float_floordiv_60 :: "real \<Rightarrow> real" where
  "float_floordiv_60 vx =
     (let md = vx - 60 * of_int (if 0 \<le> vx then \<lfloor>vx / 60\<rfloor> else \<lceil>vx / 60\<rceil>);
          div0 = RN (RN (vx - md) / 60);
          dv = (if md \<noteq> 0 \<and> md < 0 then RN (div0 - 1) else div0)
      in if dv \<noteq> 0
         then (let fl = of_int \<lfloor>dv\<rfloor> in if 1 / 2 < dv - fl then fl + 1 else fl)
         else 0)"

text \<open>\<^verbatim>\<open>int(x // 60)\<close>. A \<^verbatim>\<open>bool\<close> is an integer (0 or 1) to the interpreter.\<close>

fun int_floordiv_60 :: "json \<Rightarrow> py_exception + int" where
  "int_floordiv_60 (JInt n) = Inr (n div 60)"
| "int_floordiv_60 (JBool b) = Inr ((if b then 1 else 0) div 60)"
| "int_floordiv_60 (JFloat x) = Inr \<lfloor>float_floordiv_60 x\<rfloor>"
| "int_floordiv_60 x =
     Inl (TypeError (''unsupported operand type(s) for //: '' @ quoted (type_name x) @ '' and '' @ quoted ''int''))"

text \<open>
  \<^verbatim>\<open>x / 1000\<close>: the quotient rounded to the nearest double. The quotient of two
  integers raises when it is beyond the largest double.
\<close>

definition int_true_div_1000 :: "int \<Rightarrow> py_exception + real" where
  "int_true_div_1000 n =
     (let v = RN (of_int n / 1000)
      in if 2 ^ 1024 \<le> \<bar>v\<bar> then Inl (OverflowError ''integer division result too large for a float'')
         else Inr v)"

fun true_div_1000 :: "json \<Rightarrow> py_exception + real" where
  "true_div_1000 (JInt n) = int_true_div_1000 n"
| "true_div_1000 (JBool b) = int_true_div_1000 (if b then 1 else 0)"
| "true_div_1000 (JFloat x) = Inr (RN (x / 1000))"
| "true_div_1000 x =
     Inl (TypeError (''unsupported operand type(s) for /: '' @ quoted (type_name x) @ '' and '' @ quoted ''int''))"

text \<open>
  \<^verbatim>\<open>str(x)\<close>, as an f-string field renders a value. The text of a float, a list or a
  dict is the interpreter's \<^verbatim>\<open>repr\<close>, taken as the parameter \<open>repr\<close>.
\<close>

fun py_str :: "(json \<Rightarrow> string) \<Rightarrow> json \<Rightarrow> string" where
  "py_str repr (JStr s) = s"
| "py_str repr JNull = ''None''"
| "py_str repr (JBool b) = (if b then ''True'' else ''False'')"
| "py_str repr (JInt n) = str_int n"
| "py_str repr x = repr x"

subsection \<open>The table, the request, the view\<close>

text \<open>
  A row of the cleaned table (source lines 46--91): coordinates that parsed, the disease
  text with missing values replaced by the empty text. \<open>Name\<close> and \<open>Details\<close> are
  \<open>None\<close> where the column is absent or the cell is empty, and the cell as text
  otherwise.
\<close>

record location_record =
  LAT :: real
  LON :: real
  Disease :: string
  Name :: "string option"
  Details :: "string option"

record dataset_store =
  data_load_success :: bool
  csv_data_df :: "location_record list"

text \<open>The dictionary \<^verbatim>\<open>location_info\<close> built for each match.\<close>

record location_info =
  lat :: real
  lon :: real
  disease_info :: string
  travel_time_text :: string
  travel_distance_text :: string
  route_geometry_encoded :: json
  name :: "string option"
  details :: "string option"

datatype http_method = GET | POST

text \<open>The form fields of the request; \<open>None\<close> is a field that was not sent.\<close>

record request =
  request_method :: http_method
  form_disease_name :: "string option"
  form_user_lat :: "string option"
  form_user_lon :: "string option"

text \<open>What the handler passes to the template; \<open>map_center\<close> is \<open>[lon, lat]\<close>.\<close>

record view =
  locations :: "location_info list"
  search_disease :: "string option"
  map_center :: "real \<times> real"
  map_zoom :: int
  user_lat :: "real option"
  user_lon :: "real option"

text \<open>
  The interpreter's functions that are taken as parameters: \<^verbatim>\<open>float(s)\<close> on a text
  (\<open>None\<close> when it raises \<^verbatim>\<open>ValueError\<close>), and \<^verbatim>\<open>repr\<close> of a decoded JSON value.
\<close>

record runtime =
  py_float :: "string \<Rightarrow> real option"
  py_repr :: "json \<Rightarrow> string"

subsection \<open>The directions client\<close>

text \<open>
  One call of \<^verbatim>\<open>directions_client.directions\<close> followed by \<^verbatim>\<open>raise_for_status\<close> and
  \<^verbatim>\<open>json\<close> either raises or gives the decoded document. The service is outside the
  program: it is a function of its own state \<open>'w\<close>, which every call may change.
\<close>

record directions_request =
  coordinates :: "(real \<times> real) list"
  profile :: string
  geometries :: string
  overview :: string

datatype directions_outcome = Raises py_exception | Returns json

type_synonym 'w directions_client = "'w \<Rightarrow> directions_request \<Rightarrow> directions_outcome \<times> 'w"

subsection \<open>Source lines 110--122: the centre before the request is read\<close>

definition mean :: "real list \<Rightarrow> real" where
  "mean xs = sum_list xs / real (length xs)"

definition default_map_center :: "real \<times> real" where
  "default_map_center = (77.0267093, 11.0285484)"

definition initial_map :: "dataset_store \<Rightarrow> (real \<times> real) \<times> int" where
  "initial_map store =
     (if data_load_success store \<and> csv_data_df store \<noteq> []
      then (let avg_lat = mean (map LAT (csv_data_df store));
                avg_lon = mean (map LON (csv_data_df store))
            in ((avg_lon, avg_lat), 10))
      else (default_map_center, 12))"

subsection \<open>Source lines 130--147: the user's coordinates\<close>

text \<open>
  \<^verbatim>\<open>float(s) if s else None\<close>: a missing or empty field is \<open>None\<close> without a parse;
  the result is \<open>Inl ()\<close> when the parse raises \<^verbatim>\<open>ValueError\<close>.
\<close>

definition float_if_present :: "runtime \<Rightarrow> string option \<Rightarrow> unit + real option" where
  "float_if_present rt field =
     (case field of
        None \<Rightarrow> Inr None
      | Some s \<Rightarrow> if s = [] then Inr None
                  else (case py_float rt s of None \<Rightarrow> Inl () | Some x \<Rightarrow> Inr (Some x)))"

definition parse_user_location :: "runtime \<Rightarrow> string option \<Rightarrow> string option \<Rightarrow> real option \<times> real option" where
  "parse_user_location rt user_lat_str user_lon_str =
     (case float_if_present rt user_lat_str of
        Inl _ \<Rightarrow> (None, None)
      | Inr ulat \<Rightarrow>
          (case float_if_present rt user_lon_str of
             Inl _ \<Rightarrow> (None, None)
           | Inr ulon \<Rightarrow> (ulat, ulon)))"

subsection \<open>Source lines 150--154: the filter\<close>

text \<open>
  \<^verbatim>\<open>Series.str.contains(pat, case=False, na=False, regex=False)\<close> of pandas: the
  upper-cased pattern occurs in the upper-cased cell.
\<close>

definition str_contains :: "string \<Rightarrow> string \<Rightarrow> bool" where
  "str_contains pat cell = str_in (upper pat) (upper cell)"

definition filtered_df :: "location_record list \<Rightarrow> string \<Rightarrow> location_record list" where
  "filtered_df df search_disease_lower = filter (\<lambda>row. str_contains search_disease_lower (Disease row)) df"

subsection \<open>Source lines 164--247: the loop with the user's location\<close>

definition new_location_info :: "location_record \<Rightarrow> string \<Rightarrow> location_info" where
  "new_location_info row placeholder =
     \<lparr>lat = LAT row, lon = LON row, disease_info = Disease row,
      travel_time_text = placeholder, travel_distance_text = placeholder,
      route_geometry_encoded = JNull, name = Name row, details = Details row\<rparr>"

text \<open>Lines 204--214. A step that raises leaves the dictionary as it was.\<close>

definition set_travel_time :: "json \<Rightarrow> location_info \<Rightarrow> py_exception + location_info" where
  "set_travel_time duration_seconds info =
     (if duration_seconds \<noteq> JNull
      then (case int_floordiv_60 duration_seconds of
              Inl e \<Rightarrow> Inl e
            | Inr minutes \<Rightarrow>
                (let hours = minutes div 60;
                     remaining_minutes = minutes mod 60
                 in if 0 < hours
                    then Inr (info\<lparr>travel_time_text :=
                                str_int hours @ '' hr '' @ str_int remaining_minutes @ '' min (driving)''\<rparr>)
                    else Inr (info\<lparr>travel_time_text := str_int minutes @ '' min (driving)''\<rparr>)))
      else Inr (info\<lparr>travel_time_text := ''Time N/A''\<rparr>))"

text \<open>Lines 216--221.\<close>

definition set_travel_distance :: "json \<Rightarrow> location_info \<Rightarrow> py_exception + location_info" where
  "set_travel_distance distance_meters info =
     (if distance_meters \<noteq> JNull
      then (case true_div_1000 distance_meters of
              Inl e \<Rightarrow> Inl e
            | Inr distance_km \<Rightarrow>
                Inr (info\<lparr>travel_distance_text := format_2f distance_km @ '' km (driving)''\<rparr>))
      else Inr (info\<lparr>travel_distance_text := ''Distance N/A''\<rparr>))"

text \<open>
  Lines 198--223, the branch of a document with routes. The result is the dictionary
  as the branch leaves it, and the exception when one was raised.
\<close>

definition first_route :: "json \<Rightarrow> location_info \<Rightarrow> location_info \<times> py_exception option" where
  "first_route directions_result info =
     (case subscript_key directions_result ''routes'' of
        Inl e \<Rightarrow> (info, Some e)
      | Inr routes \<Rightarrow>
     (case subscript_0 routes of
        Inl e \<Rightarrow> (info, Some e)
      | Inr route \<Rightarrow>
     (case dict_get route ''duration'' of
        Inl e \<Rightarrow> (info, Some e)
      | Inr duration_seconds \<Rightarrow>
     (case dict_get route ''distance'' of
        Inl e \<Rightarrow> (info, Some e)
      | Inr distance_meters \<Rightarrow>
     (case dict_get route ''geometry'' of
        Inl e \<Rightarrow> (info, Some e)
      | Inr route_geometry \<Rightarrow>
     (case set_travel_time duration_seconds info of
        Inl e \<Rightarrow> (info, Some e)
      | Inr info1 \<Rightarrow>
     (case set_travel_distance distance_meters info1 of
        Inl e \<Rightarrow> (info1, Some e)
      | Inr info2 \<Rightarrow> (info2\<lparr>route_geometry_encoded := route_geometry\<rparr>, None))))))))"

text \<open>Lines 197--236, the three branches on the decoded document.\<close>

definition on_directions_result :: "runtime \<Rightarrow> json \<Rightarrow> location_info \<Rightarrow> location_info \<times> py_exception option" where
  "on_directions_result rt directions_result info =
     (if truthy directions_result
      then (case dict_get directions_result ''routes'' of
              Inl e \<Rightarrow> (info, Some e)
            | Inr routes \<Rightarrow>
                if truthy routes then first_route directions_result info
                else (case dict_get directions_result ''code'' of
                        Inl e \<Rightarrow> (info, Some e)
                      | Inr code \<Rightarrow>
                          if code \<noteq> JStr ''Ok''
                          then (case dict_get_default directions_result ''code'' (JStr ''Unknown API Error'') of
                                  Inl e \<Rightarrow> (info, Some e)
                                | Inr error_code \<Rightarrow>
                                    (info\<lparr>travel_time_text := ''API Error: '' @ py_str (py_repr rt) error_code,
                                          travel_distance_text := ''API Error: '' @ py_str (py_repr rt) error_code\<rparr>,
                                     None))
                          else (info\<lparr>travel_time_text := ''Route not found'',
                                     travel_distance_text := ''Route not found''\<rparr>, None)))
      else (info\<lparr>travel_time_text := ''Route not found'',
                 travel_distance_text := ''Route not found''\<rparr>, None))"

text \<open>Lines 238--245, the two \<^verbatim>\<open>except\<close> clauses.\<close>

fun on_exception :: "py_exception \<Rightarrow> location_info \<Rightarrow> location_info" where
  "on_exception (MapboxAPIError m) info =
     info\<lparr>travel_time_text := ''API Error: '' @ m, travel_distance_text := ''API Error: '' @ m\<rparr>"
| "on_exception e info =
     info\<lparr>travel_time_text := ''Error: '' @ str_exception e,
          travel_distance_text := ''Error: '' @ str_exception e\<rparr>"

text \<open>Lines 184--245: the \<^verbatim>\<open>try\<close> statement, given what the call gave.\<close>

definition try_route :: "runtime \<Rightarrow> directions_outcome \<Rightarrow> location_info \<Rightarrow> location_info" where
  "try_route rt outcome info =
     (case outcome of
        Raises e \<Rightarrow> on_exception e info
      | Returns directions_result \<Rightarrow>
          (case on_directions_result rt directions_result info of
             (info', None) \<Rightarrow> info'
           | (info', Some e) \<Rightarrow> on_exception e info'))"

definition route_request :: "real \<times> real \<Rightarrow> location_record \<Rightarrow> directions_request" where
  "route_request user_location_mapbox row =
     \<lparr>coordinates = [user_location_mapbox, (LON row, LAT row)],
      profile = ''mapbox/driving'', geometries = ''polyline'', overview = ''simplified''\<rparr>"

text \<open>The body of the loop for one row, given what the call gave (lines 165--246).\<close>

definition routed_location_info :: "runtime \<Rightarrow> location_record \<Rightarrow> directions_outcome \<Rightarrow> location_info" where
  "routed_location_info rt row outcome = try_route rt outcome (new_location_info row ''Calculating...'')"

fun route_locations ::
  "runtime \<Rightarrow> 'w directions_client \<Rightarrow> real \<times> real \<Rightarrow> location_record list \<Rightarrow> 'w \<Rightarrow> location_info list \<times> 'w" where
  "route_locations rt client origin [] w = ([], w)"
| "route_locations rt client origin (row # rows) w =
     (let (outcome, w1) = client w (route_request origin row);
          location_info = routed_location_info rt row outcome;
          (found, w2) = route_locations rt client origin rows w1
      in (location_info # found, w2))"

text \<open>What the service answers to the calls of the loop, in the order of the calls.\<close>

fun directions_outcomes ::
  "'w directions_client \<Rightarrow> real \<times> real \<Rightarrow> location_record list \<Rightarrow> 'w \<Rightarrow> directions_outcome list" where
  "directions_outcomes client origin [] w = []"
| "directions_outcomes client origin (row # rows) w =
     (let (outcome, w1) = client w (route_request origin row)
      in outcome # directions_outcomes client origin rows w1)"

subsection \<open>Source lines 249--264: the loop without the user's location\<close>

definition basic_locations :: "location_record list \<Rightarrow> location_info list" where
  "basic_locations rows = map (\<lambda>row. new_location_info row ''Requires Location'') rows"

subsection \<open>Source lines 101--289: the handler\<close>

text \<open>\<^verbatim>\<open>request.form.get('disease_name', '')\<close>.\<close>

definition disease_name_field :: "request \<Rightarrow> string" where
  "disease_name_field req = (case form_disease_name req of None \<Rightarrow> [] | Some s \<Rightarrow> s)"

text \<open>Lines 136--142: with both coordinates, the map is centred on the user.\<close>

definition center_on_user ::
  "real option \<Rightarrow> real option \<Rightarrow> (real \<times> real) \<times> int \<Rightarrow> (real \<times> real) \<times> int" where
  "center_on_user ulat ulon center_zoom =
     (case (ulat, ulon) of
        (Some la, Some lo) \<Rightarrow> ((lo, la), 13)
      | _ \<Rightarrow> center_zoom)"

text \<open>Lines 152--264: the filter and the loop that the user's location selects.\<close>

definition find_locations ::
  "runtime \<Rightarrow> 'w directions_client \<Rightarrow> location_record list \<Rightarrow> string \<Rightarrow> real option \<Rightarrow> real option \<Rightarrow> 'w
     \<Rightarrow> location_info list \<times> 'w" where
  "find_locations rt client df search_disease_lower ulat ulon w =
     (let matches = filtered_df df search_disease_lower
      in if matches \<noteq> []
         then (case (ulat, ulon) of
                 (Some la, Some lo) \<Rightarrow> route_locations rt client (lo, la) matches w
               | _ \<Rightarrow> (basic_locations matches, w))
         else ([], w))"

text \<open>Lines 267--274: without a user location, the map is centred on the locations found.\<close>

definition center_on_found ::
  "location_info list \<Rightarrow> real option \<Rightarrow> real option \<Rightarrow> (real \<times> real) \<times> int \<Rightarrow> (real \<times> real) \<times> int" where
  "center_on_found found_locations ulat ulon center_zoom =
     (if found_locations \<noteq> [] \<and> (ulat = None \<or> ulon = None)
      then (let avg_lat = mean (map lat found_locations);
                avg_lon = mean (map lon found_locations)
            in ((avg_lon, avg_lat), 13))
      else center_zoom)"

text \<open>
  The handler: the view it renders and the state in which it leaves the service. A
  request that is not a POST skips the block of lines 125--277.
\<close>

definition index :: "runtime \<Rightarrow> 'w directions_client \<Rightarrow> dataset_store \<Rightarrow> request \<Rightarrow> 'w \<Rightarrow> view \<times> 'w" where
  "index rt client store req w =
     (let (center0, zoom0) = initial_map store
      in case request_method req of
           GET \<Rightarrow>
             (\<lparr>locations = [], search_disease = None, map_center = center0, map_zoom = zoom0,
               user_lat = None, user_lon = None\<rparr>, w)
         | POST \<Rightarrow>
             (let term = strip (disease_name_field req);
                  search_disease_lower = lower term;
                  (ulat, ulon) = parse_user_location rt (form_user_lat req) (form_user_lon req);
                  (center1, zoom1) = center_on_user ulat ulon (center0, zoom0)
              in if search_disease_lower \<noteq> [] \<and> data_load_success store \<and> csv_data_df store \<noteq> []
                 then
                   (let (found_locations, w') =
                          find_locations rt client (csv_data_df store) search_disease_lower ulat ulon w;
                        (center2, zoom2) = center_on_found found_locations ulat ulon (center1, zoom1)
                    in (\<lparr>locations = found_locations, search_disease = Some term,
                         map_center = center2, map_zoom = zoom2, user_lat = ulat, user_lon = ulon\<rparr>, w'))
                 else
                   (\<lparr>locations = [], search_disease = Some term, map_center = center1, map_zoom = zoom1,
                     user_lat = ulat, user_lon = ulon\<rparr>, w)))"

subsection \<open>Notions used to state the properties\<close>

text \<open>The number that a decoded JSON number stands for.\<close>

fun number_value :: "json \<Rightarrow> real option" where
  "number_value (JInt n) = Some (of_int n)"
| "number_value (JFloat x) = Some x"
| "number_value _ = None"

text \<open>
  A cell contains a term ignoring case when some contiguous block of the cell equals the
  term up to the case of the letters.
\<close>

definition contains_ignoring_case :: "string \<Rightarrow> string \<Rightarrow> bool" where
  "contains_ignoring_case cell t \<longleftrightarrow> (\<exists>u v w. cell = u @ v @ w \<and> lower v = lower t)"

text \<open>The row of the table that a result was built from.\<close>

definition info_row :: "location_info \<Rightarrow> location_record" where
  "info_row info =
     \<lparr>LAT = lat info, LON = lon info, Disease = disease_info info, Name = name info, Details = details info\<rparr>"

text \<open>
  A client that records the requests it receives, in the order of the calls, next to
  the state of the service.
\<close>

definition recording :: "'w directions_client \<Rightarrow> (directions_request list \<times> 'w) directions_client" where
  "recording client = (\<lambda>(calls, w) r. let (outcome, w') = client w r in (outcome, (calls @ [r], w')))"



text \<open>The text that the two \<^verbatim>\<open>except\<close> clauses write for an exception.\<close>

definition error_text :: "py_exception \<Rightarrow> string" where
  "error_text e = (case e of MapboxAPIError m \<Rightarrow> ''API Error: '' @ m | _ \<Rightarrow> ''Error: '' @ str_exception e)"

text \<open>
  The rows that a request matches: the rows of the loaded table whose category the
  pandas filter selects for the stripped, lower-cased term, when the request is a POST
  with a term that is not blank; no rows otherwise.
\<close>

definition matching_rows :: "dataset_store \<Rightarrow> request \<Rightarrow> location_record list" where
  "matching_rows store req =
     (if request_method req = POST \<and> strip (disease_name_field req) \<noteq> [] \<and> data_load_success store
      then filtered_df (csv_data_df store) (lower (strip (disease_name_field req)))
      else [])"



subsection \<open>Examples\<close>

text \<open>
  A table of three rows. The term \<open>flu\<close> matches the first two, at (10, 20) and
  (12, 22); the term \<open>l\<close> matches all three.
\<close>

definition example_row :: location_record where
  "example_row = \<lparr>LAT = 10, LON = 20, Disease = ''Flu'', Name = Some ''Dr A'', Details = None\<rparr>"

definition example_rows :: "location_record list" where
  "example_rows =
     [example_row,
      \<lparr>LAT = 12, LON = 22, Disease = ''Swine flu'', Name = None, Details = Some ''ward 2''\<rparr>,
      \<lparr>LAT = 30, LON = 40, Disease = ''Malaria'', Name = None, Details = None\<rparr>]"

definition example_store :: dataset_store where
  "example_store = \<lparr>data_load_success = True, csv_data_df = example_rows\<rparr>"

definition example_info :: location_info where
  "example_info = new_location_info example_row ''Calculating...''"

text \<open>A runtime whose \<open>float\<close> reads the two texts of the examples and rejects the rest.\<close>

definition example_runtime :: runtime where
  "example_runtime =
     \<lparr>py_float = (\<lambda>s. if s = ''12.0'' then Some 12 else if s = ''77.5'' then Some (155 / 2) else None),
      py_repr = (\<lambda>x. ''?'')\<rparr>"

definition example_request :: "string \<Rightarrow> string option \<Rightarrow> string option \<Rightarrow> request" where
  "example_request term ulat ulon =
     \<lparr>request_method = POST, form_disease_name = Some term, form_user_lat = ulat, form_user_lon = ulon\<rparr>"

text \<open>A document with one route of 125 seconds and 4200 metres.\<close>

definition example_document :: json where
  "example_document =
     JObj [(''code'', JStr ''Ok''),
           (''routes'', JArr [JObj [(''duration'', JInt 125), (''distance'', JInt 4200),
                                    (''geometry'', JStr ''_p~iF~ps|U'')]])]"

text \<open>
  A service whose state counts the calls. Its second call fails with a transport fault;
  every other call returns the document above.
\<close>

definition example_client :: "nat directions_client" where
  "example_client n r =
     (if n = 1 then Raises (OtherException ''Read timed out'') else Returns example_document, Suc n)"




section \<open>Lemmas\<close>

subsection \<open>Rounding to the nearest double\<close>

lemma pow2_powr: "pow2 k = 2 powr (of_int k)"
proof (cases "0 \<le> k")
  case True
  then show ?thesis by (simp add: pow2_def powr_real_of_int)
next
  case False
  then show ?thesis by (simp add: pow2_def powr_real_of_int field_simps)
qed

lemma pow2_pos [simp]: "0 < pow2 k"
  by (simp add: pow2_powr)

lemma pow2_add: "pow2 (j + k) = pow2 j * pow2 k"
  by (simp add: pow2_powr powr_add)

lemma pow2_mono: "j \<le> k \<Longrightarrow> pow2 j \<le> pow2 k"
  by (simp add: pow2_powr)

lemma pow2_less_cancel: "pow2 j < pow2 k \<Longrightarrow> j < k"
  by (simp add: pow2_powr)

lemma pow2_nat: "pow2 (int n) = 2 ^ n"
  by (simp add: pow2_def)

lemma binary_exponent_floor_log: "0 < x \<Longrightarrow> binary_exponent x = \<lfloor>log 2 x\<rfloor>"
proof (induction x rule: binary_exponent.induct)
  case (1 x)
  show ?case
  proof (cases "2 \<le> x")
    case True
    then have "log 2 (x / 2) = log 2 x - 1" by (simp add: log_divide)
    with True 1 show ?thesis by (simp add: binary_exponent.simps [of x])
  next
    case False
    show ?thesis
    proof (cases "x < 1")
      case True
      then have "log 2 (2 * x) = 1 + log 2 x" using "1.prems" by (simp add: log_mult)
      with True False 1 show ?thesis by (simp add: binary_exponent.simps [of x])
    next
      case F: False
      then have "0 \<le> log 2 x" by simp
      moreover have "log 2 x < 1" using False "1.prems" by (simp add: log_less_iff)
      ultimately have "\<lfloor>log 2 x\<rfloor> = 0" by linarith
      with False F show ?thesis by (simp add: binary_exponent.simps [of x])
    qed
  qed
qed

lemma binary_exponent_eq:
  "0 < x \<Longrightarrow> pow2 k \<le> x \<Longrightarrow> x < pow2 (k + 1) \<Longrightarrow> binary_exponent x = k"
  using floor_log_eq_powr_iff [of x 2 k] by (simp add: pow2_powr binary_exponent_floor_log)

lemma binary_exponent_bounds:
  assumes "0 < x"
  shows "pow2 (binary_exponent x) \<le> x" and "x < pow2 (binary_exponent x + 1)"
  using floor_log_eq_powr_iff [of x 2 "\<lfloor>log 2 x\<rfloor>"] assms
  by (simp_all add: pow2_powr binary_exponent_floor_log)

lemma round_half_even_of_int [simp]: "round_half_even (of_int n) = n"
  by (simp add: round_half_even_def)

lemma round_half_even_ge: "of_int n \<le> y \<Longrightarrow> n \<le> round_half_even y"
  unfolding round_half_even_def Let_def
  by (auto simp: le_floor_iff) linarith+

lemma round_half_even_close: "\<bar>of_int (round_half_even y) - y\<bar> \<le> 1 / 2"
  unfolding round_half_even_def Let_def
  by auto

lemma round_half_even_nonneg: "0 \<le> y \<Longrightarrow> 0 \<le> round_half_even y"
  using round_half_even_ge [of 0 y] by simp

lemma RN_unfold:
  assumes "x \<noteq> 0" and "pow2 k \<le> \<bar>x\<bar>" and "\<bar>x\<bar> < pow2 (k + 1)"
  shows "RN x = of_int (round_half_even (x / pow2 (k - 52))) * pow2 (k - 52)"
proof -
  have "binary_exponent \<bar>x\<bar> = k"
    using assms by (intro binary_exponent_eq) auto
  then show ?thesis using assms(1) by (simp add: RN_def Let_def)
qed

lemma RN_of_int:
  assumes "\<bar>n\<bar> < 2 ^ 53"
  shows "RN (of_int n) = of_int n"
proof (cases "n = 0")
  case True
  then show ?thesis by (simp add: RN_def)
next
  case False
  define x :: real where "x = of_int n"
  define e where "e = binary_exponent \<bar>x\<bar>"
  have x0: "x \<noteq> 0" using False by (simp add: x_def)
  then have xpos: "0 < \<bar>x\<bar>" by simp
  have lo: "pow2 e \<le> \<bar>x\<bar>" and hi: "\<bar>x\<bar> < pow2 (e + 1)"
    using binary_exponent_bounds [OF xpos] by (simp_all add: e_def)
  have "(of_int \<bar>n\<bar> :: real) < of_int (2 ^ 53)"
    using assms by (simp only: of_int_less_iff)
  then have "\<bar>x\<bar> < pow2 53"
    by (simp add: x_def pow2_def)
  with lo have "pow2 e < pow2 53" by linarith
  then have e53: "e < 53" by (rule pow2_less_cancel)
  define m where "m = nat (52 - e)"
  have u: "pow2 (e - 52) = 1 / 2 ^ m"
    using e53 by (cases "e = 52") (simp_all add: pow2_def m_def)
  have "x / pow2 (e - 52) = of_int (n * 2 ^ m)"
    by (simp add: u x_def)
  then have r: "round_half_even (x / pow2 (e - 52)) = n * 2 ^ m"
    by (simp only: round_half_even_of_int)
  have "RN x = of_int (n * 2 ^ m) * pow2 (e - 52)"
    using RN_unfold [OF x0 lo hi] by (simp only: r)
  also have "\<dots> = x" by (simp add: u x_def)
  finally show ?thesis by (simp add: x_def)
qed

lemma RN_ge_pow2:
  assumes "pow2 k \<le> x"
  shows "pow2 k \<le> RN x"
proof -
  have xpos: "0 < x" using assms pow2_pos [of k] by linarith
  define e where "e = binary_exponent \<bar>x\<bar>"
  define u where "u = pow2 (e - 52)"
  define r where "r = round_half_even (x / u)"
  have upos: "0 < u" by (simp add: u_def)
  have lo: "pow2 e \<le> \<bar>x\<bar>" and hi: "\<bar>x\<bar> < pow2 (e + 1)"
    using binary_exponent_bounds [of "\<bar>x\<bar>"] xpos by (simp_all add: e_def)
  have "pow2 k < pow2 (e + 1)" using assms hi xpos by linarith
  then have "k < e + 1" by (rule pow2_less_cancel)
  then have ke: "k \<le> e" by simp
  have eu: "pow2 e = of_int (2 ^ 52) * u"
    using pow2_add [of 52 "e - 52"] by (simp add: pow2_def u_def)
  then have "of_int (2 ^ 52) \<le> x / u"
    using lo xpos upos by (simp add: pos_le_divide_eq)
  then have "2 ^ 52 \<le> r"
    unfolding r_def by (rule round_half_even_ge)
  then have "(of_int (2 ^ 52) :: real) \<le> of_int r"
    by (simp only: of_int_le_iff)
  then have "of_int (2 ^ 52) * u \<le> of_int r * u"
    using upos by (intro mult_right_mono) simp_all
  moreover have "RN x = of_int r * u"
    using RN_unfold [OF _ lo hi] xpos by (simp add: r_def u_def)
  ultimately have "pow2 e \<le> RN x" by (simp only: eu)
  with pow2_mono [OF ke] show ?thesis by linarith
qed

lemma RN_error: "\<bar>RN x - x\<bar> \<le> \<bar>x\<bar> / 2 ^ 53"
proof (cases "x = 0")
  case True
  then show ?thesis by (simp add: RN_def)
next
  case False
  define e where "e = binary_exponent \<bar>x\<bar>"
  define u where "u = pow2 (e - 52)"
  define r :: real where "r = of_int (round_half_even (x / u))"
  have upos: "0 < u" by (simp add: u_def)
  have lo: "pow2 e \<le> \<bar>x\<bar>" and hi: "\<bar>x\<bar> < pow2 (e + 1)"
    using binary_exponent_bounds [of "\<bar>x\<bar>"] False by (simp_all add: e_def)
  have rn: "RN x = r * u"
    using RN_unfold [OF False lo hi] by (simp add: r_def u_def)
  have "r * u - x = (r - x / u) * u"
    using upos by (simp add: field_simps)
  then have "\<bar>RN x - x\<bar> = \<bar>r - x / u\<bar> * u"
    using upos by (simp add: rn abs_mult)
  also have "\<dots> \<le> 1 / 2 * u"
    using round_half_even_close [of "x / u"] upos unfolding r_def by (intro mult_right_mono) simp_all
  also have "\<dots> = pow2 e / 2 ^ 53"
    using pow2_add [of 52 "e - 52"] by (simp add: u_def pow2_def)
  also have "\<dots> \<le> \<bar>x\<bar> / 2 ^ 53"
    using lo by (simp add: divide_right_mono)
  finally show ?thesis .
qed

subsection \<open>Floor division and the minutes of a duration\<close>

lemma float_floordiv_60_nonneg:
  assumes "0 \<le> x"
  shows "float_floordiv_60 x =
     (let dv = RN (RN (of_int (60 * \<lfloor>x / 60\<rfloor>)) / 60)
      in if dv \<noteq> 0 then (if 1 / 2 < dv - of_int \<lfloor>dv\<rfloor> then of_int \<lfloor>dv\<rfloor> + 1 else of_int \<lfloor>dv\<rfloor>) else 0)"
proof -
  define k where "k = \<lfloor>x / 60\<rfloor>"
  define md where "md = x - 60 * of_int k"
  have kx: "of_int k * 60 \<le> x"
    using of_int_floor_le [of "x / 60"] unfolding k_def by (simp add: field_simps)
  have md0: "\<not> md < 0" using kx by (simp add: md_def)
  have xm: "x - md = of_int (60 * k)" by (simp add: md_def)
  have "float_floordiv_60 x =
     (let dv = RN (RN (x - md) / 60)
      in if dv \<noteq> 0 then (if 1 / 2 < dv - of_int \<lfloor>dv\<rfloor> then of_int \<lfloor>dv\<rfloor> + 1 else of_int \<lfloor>dv\<rfloor>) else 0)"
    unfolding float_floordiv_60_def Let_def using assms md0
    by (simp only: if_True k_def [symmetric] md_def [symmetric] simp_thms if_False)
  then show ?thesis by (simp only: xm k_def)
qed

lemma float_floordiv_60_exact:
  assumes "0 \<le> x" and "x < 2 ^ 53"
  shows "float_floordiv_60 x = of_int \<lfloor>x / 60\<rfloor>"
proof -
  define k where "k = \<lfloor>x / 60\<rfloor>"
  have k0: "0 \<le> k" using assms(1) by (simp add: k_def)
  have kx: "of_int k * 60 \<le> x"
    using of_int_floor_le [of "x / 60"] unfolding k_def by (simp add: field_simps)
  have "real_of_int (60 * k) < of_int (2 ^ 53)"
    using kx assms(2) by simp
  then have "60 * k < 2 ^ 53"
    by (simp only: of_int_less_iff)
  then have b1: "\<bar>60 * k\<bar> < 2 ^ 53" and b2: "\<bar>k\<bar> < 2 ^ 53"
    using k0 by simp_all
  have "RN (of_int (60 * k)) = of_int (60 * k)"
    by (rule RN_of_int [OF b1])
  then have "RN (of_int (60 * k)) / 60 = of_int k"
    by simp
  then have "RN (RN (of_int (60 * k)) / 60) = of_int k"
    by (simp only: RN_of_int [OF b2])
  then show ?thesis
    unfolding float_floordiv_60_nonneg [OF assms(1)] k_def [symmetric] Let_def by simp
qed

lemma float_floordiv_60_large:
  assumes "2 ^ 53 \<le> x"
  shows "2 ^ 46 \<le> float_floordiv_60 x"
proof -
  have x0: "0 \<le> x" using assms by (smt (verit) zero_le_power)
  define k where "k = \<lfloor>x / 60\<rfloor>"
  have kx': "x < (of_int k + 1) * 60"
    using floor_correct [of "x / 60"] unfolding k_def by (simp_all add: field_simps)
  have "pow2 52 \<le> of_int (60 * k)"
    using kx' assms by (simp add: pow2_def)
  then have "pow2 52 \<le> RN (of_int (60 * k))" by (rule RN_ge_pow2)
  then have "pow2 46 \<le> RN (of_int (60 * k)) / 60" by (simp add: pow2_def)
  then have "pow2 46 \<le> RN (RN (of_int (60 * k)) / 60)" by (rule RN_ge_pow2)
  define dv where "dv = RN (RN (of_int (60 * k)) / 60)"
  have dv: "(of_int (2 ^ 46) :: real) \<le> dv"
    using \<open>pow2 46 \<le> RN (RN (of_int (60 * k)) / 60)\<close> by (simp add: dv_def pow2_def)
  then have "2 ^ 46 \<le> \<lfloor>dv\<rfloor>" by (simp only: le_floor_iff)
  then have "(of_int (2 ^ 46) :: real) \<le> of_int \<lfloor>dv\<rfloor>" by (simp only: of_int_le_iff)
  then have fl: "(2 ^ 46 :: real) \<le> of_int \<lfloor>dv\<rfloor>" by simp
  have "float_floordiv_60 x = (if dv \<noteq> 0 then (if 1 / 2 < dv - of_int \<lfloor>dv\<rfloor> then of_int \<lfloor>dv\<rfloor> + 1 else of_int \<lfloor>dv\<rfloor>) else 0)"
    unfolding float_floordiv_60_nonneg [OF x0] k_def [symmetric] dv_def Let_def ..
  moreover have "dv \<noteq> 0" using dv by simp
  ultimately show ?thesis using fl by simp
qed


lemma str_nat_neq_Nil [simp]: "str_nat n \<noteq> []"
  by (subst str_nat.simps) simp

lemma minutes_of_seconds:
  assumes "number_value d = Some x" and "0 \<le> x"
  shows "\<exists>m. int_floordiv_60 d = Inr m \<and> (x < 2 ^ 53 \<longrightarrow> m = \<lfloor>x / 60\<rfloor>) \<and> (3600 \<le> x \<longleftrightarrow> 60 \<le> m)"
proof (cases d)
  case (JInt n)
  then have x: "x = of_int n" using assms(1) by simp
  have "\<lfloor>x / 60\<rfloor> = n div 60"
    unfolding x using floor_divide_of_int_eq [of n 60, where ?'a = real] by simp
  moreover have "3600 \<le> x \<longleftrightarrow> 60 \<le> n div 60"
    unfolding x by (simp add: pos_imp_zdiv_pos_iff) linarith
  ultimately show ?thesis using JInt by simp
next
  case (JFloat y)
  then have x: "y = x" using assms(1) by simp
  show ?thesis
  proof (cases "x < 2 ^ 53")
    case True
    have "\<lfloor>float_floordiv_60 x\<rfloor> = \<lfloor>x / 60\<rfloor>"
      by (simp add: float_floordiv_60_exact [OF assms(2) True])
    moreover have "3600 \<le> x \<longleftrightarrow> 60 \<le> \<lfloor>x / 60\<rfloor>"
      by (simp add: le_floor_iff)
    ultimately show ?thesis using JFloat x by simp
  next
    case False
    then have "(of_int (2 ^ 46) :: real) \<le> float_floordiv_60 x"
      using float_floordiv_60_large [of x] by simp
    then have "2 ^ 46 \<le> \<lfloor>float_floordiv_60 x\<rfloor>"
      by (simp only: le_floor_iff)
    then have "60 \<le> \<lfloor>float_floordiv_60 x\<rfloor>" by simp
    moreover have "3600 \<le> x" using False by simp
    ultimately show ?thesis using JFloat x False by simp
  qed
qed (use assms in simp_all)

subsection \<open>Decimal digits and the format with two places\<close>

lemma digit_char_in: "d < 10 \<Longrightarrow> digit_char d \<in> set ''0123456789''"
  unfolding digit_char_def by (rule nth_mem) simp

lemma str_nat_digits: "set (str_nat n) \<subseteq> set ''0123456789''"
proof (induction n rule: str_nat.induct)
  case (1 n)
  show ?case
  proof (cases "n < 10")
    case True
    then show ?thesis using digit_char_in [of n] by (subst str_nat.simps) simp
  next
    case False
    have "digit_char (n mod 10) \<in> set ''0123456789''" by (rule digit_char_in) simp
    with False 1 show ?thesis by (subst str_nat.simps) simp
  qed
qed

lemma decimal_split: "100 * (q div 100) + 10 * (q div 10 mod 10) + q mod 10 = (q::nat)"
proof -
  have "q mod (10 * 10) = 10 * (q div 10 mod 10) + q mod 10"
    by (rule mod_mult2_eq)
  moreover have "q = 100 * (q div 100) + q mod 100"
    by simp
  ultimately show ?thesis by simp
qed

lemma decimal_split_real:
  "real (q div 100) + real (q div 10 mod 10) / 10 + real (q mod 10) / 100 = real q / 100"
proof -
  define a b c where "a = q div 100" and "b = q div 10 mod 10" and "c = q mod 10"
  have "q = 100 * a + 10 * b + c"
    unfolding a_def b_def c_def by (simp only: decimal_split)
  then have "real q = 100 * real a + 10 * real b + real c" by simp
  then show ?thesis unfolding a_def [symmetric] b_def [symmetric] c_def [symmetric] by simp
qed

lemma round_half_even_centi:
  assumes "0 \<le> y"
  shows "\<bar>real (nat (round_half_even (y * 100))) / 100 - y\<bar> \<le> 1 / 200"
proof -
  define r where "r = round_half_even (y * 100)"
  have r0: "0 \<le> r" unfolding r_def using assms by (intro round_half_even_nonneg) simp
  have c: "\<bar>real_of_int r - y * 100\<bar> \<le> 1 / 2"
    unfolding r_def by (rule round_half_even_close)
  have "real (nat r) / 100 - y = (real_of_int r - y * 100) / 100"
    using r0 by (simp add: diff_divide_distrib)
  then have "\<bar>real (nat r) / 100 - y\<bar> = \<bar>(real_of_int r - y * 100) / 100\<bar>"
    by (simp only:)
  also have "\<dots> = \<bar>real_of_int r - y * 100\<bar> / 100"
    by (simp only: abs_divide abs_numeral)
  also have "\<dots> \<le> (1 / 2) / 100"
    using c by (rule divide_right_mono) simp
  finally show ?thesis unfolding r_def by simp
qed

lemma format_2f_places:
  "\<exists>a b c. b < 10 \<and> c < 10 \<and> \<bar>real a + real b / 10 + real c / 100 - \<bar>v\<bar>\<bar> \<le> 1 / 200 \<and>
     format_2f v = (if v < 0 then ''-'' else []) @ str_nat a @ ''.'' @ [digit_char b, digit_char c]"
proof -
  define q where "q = nat (round_half_even (\<bar>v\<bar> * 100))"
  have "\<bar>real (q div 100) + real (q div 10 mod 10) / 10 + real (q mod 10) / 100 - \<bar>v\<bar>\<bar> \<le> 1 / 200"
    unfolding decimal_split_real q_def by (rule round_half_even_centi) simp
  moreover have "format_2f v = (if v < 0 then ''-'' else []) @ str_nat (q div 100) @ ''.'' @
      [digit_char (q div 10 mod 10), digit_char (q mod 10)]"
    by (simp add: format_2f_def q_def Let_def)
  moreover have "q div 10 mod 10 < 10" "q mod 10 < 10" by simp_all
  ultimately show ?thesis by blast
qed

subsection \<open>The division by 1000\<close>

lemma RN_abs_le: "\<bar>RN y\<bar> \<le> 2 * \<bar>y\<bar>"
proof -
  have "\<bar>RN y - y\<bar> \<le> \<bar>y\<bar> / 2 ^ 53" by (rule RN_error)
  also have "\<dots> \<le> \<bar>y\<bar>" by (simp add: divide_le_eq)
  finally show ?thesis by linarith
qed

lemma true_div_1000_number:
  assumes "number_value d = Some x" and "\<bar>x\<bar> < 2 ^ 1024"
  shows "true_div_1000 d = Inr (RN (x / 1000))"
proof -
  have "\<bar>RN (x / 1000)\<bar> \<le> 2 * \<bar>x / 1000\<bar>" by (rule RN_abs_le)
  also have "\<dots> = \<bar>x\<bar> / 500" by simp
  also have "\<dots> \<le> \<bar>x\<bar>" by (simp add: divide_le_eq)
  finally have "\<not> 2 ^ 1024 \<le> \<bar>RN (x / 1000)\<bar>" using assms(2) by linarith
  then show ?thesis using assms(1)
    by (cases d) (simp_all add: int_true_div_1000_def Let_def)
qed

lemma RN_21_5: "RN (21 / 5) = 4728779608739021 / 1125899906842624"
proof -
  have "RN (21 / 5) = of_int (round_half_even ((21 / 5) / pow2 (2 - 52))) * pow2 (2 - 52)"
    by (rule RN_unfold) (simp_all add: pow2_def)
  also have "\<dots> = 4728779608739021 / 1125899906842624"
    by (simp add: pow2_def round_half_even_def)
  finally show ?thesis .
qed

lemma int_true_div_1000_4200: "int_true_div_1000 4200 = Inr (4728779608739021 / 1125899906842624)"
  by (simp add: int_true_div_1000_def RN_21_5)

lemma format_2f_4200: "format_2f (4728779608739021 / 1125899906842624) = ''4.20''"
  by (simp add: format_2f_def round_half_even_def str_nat.simps digit_char_def)

subsection \<open>Text\<close>

lemma is_space_lower_char [simp]: "is_space (lower_char c) = is_space c"
  by (simp add: is_space_def lower_char_def Let_def)

lemma lower_char_idem [simp]: "lower_char (lower_char c) = lower_char c"
  by (simp add: lower_char_def Let_def)

lemma upper_lower_char [simp]: "upper_char (lower_char c) = upper_char c"
  by (simp add: lower_char_def upper_char_def Let_def)

lemma lower_upper_char [simp]: "lower_char (upper_char c) = lower_char c"
proof (cases "97 \<le> (of_char c :: nat) \<and> (of_char c :: nat) \<le> 122")
  case True
  define n :: nat where "n = of_char c"
  have n: "97 \<le> n" "n \<le> 122" using True by (simp_all add: n_def)
  have u: "upper_char c = char_of (n - 32)"
    using True by (simp add: upper_char_def n_def)
  have "(of_char (char_of (n - 32)) :: nat) = (n - 32) mod 256" by (rule of_char_of)
  also have "\<dots> = n - 32" using n by simp
  finally have code: "(of_char (char_of (n - 32)) :: nat) = n - 32" .
  have "65 \<le> n - 32 \<and> n - 32 \<le> 90" using n by arith
  then have "lower_char (char_of (n - 32)) = char_of (n - 32 + 32)"
    unfolding lower_char_def code Let_def by simp
  also have "\<dots> = c" using n by (simp add: n_def)
  finally have "lower_char (upper_char c) = c" by (simp only: u)
  moreover have "lower_char c = c" using True by (simp add: lower_char_def)
  ultimately show ?thesis by simp
next
  case False
  then have "upper_char c = c" unfolding upper_char_def Let_def by (simp only: if_False)
  then show ?thesis by simp
qed

lemma lower_lower [simp]: "lower (lower t) = lower t"
  by (simp add: lower_def)

lemma upper_lower [simp]: "upper (lower t) = upper t"
  by (simp add: lower_def upper_def)

lemma lower_upper [simp]: "lower (upper t) = lower t"
  by (simp add: lower_def upper_def)

lemma lower_eq_Nil [simp]: "lower t = [] \<longleftrightarrow> t = []"
  by (simp add: lower_def)

lemma dropWhile_is_space_lower: "dropWhile is_space (lower t) = lower (dropWhile is_space t)"
  by (simp add: lower_def dropWhile_map comp_def)

lemma rev_lower: "rev (lower t) = lower (rev t)"
  by (simp add: lower_def rev_map)

lemma strip_lower: "strip (lower t) = lower (strip t)"
  by (simp only: strip_def dropWhile_is_space_lower rev_lower)

lemma strip_blank: "\<forall>c\<in>set t. is_space c \<Longrightarrow> strip t = []"
proof -
  assume "\<forall>c\<in>set t. is_space c"
  then have h: "dropWhile is_space t = []" by (simp only: dropWhile_eq_Nil_conv)
  show ?thesis by (simp only: strip_def h rev.simps dropWhile.simps)
qed

lemma str_in_iff: "str_in pat s \<longleftrightarrow> (\<exists>u w. s = u @ pat @ w)"
proof (induction s)
  case Nil
  then show ?case by auto
next
  case (Cons c cs)
  have "(\<exists>u w. c # cs = u @ pat @ w) \<longleftrightarrow> prefix pat (c # cs) \<or> (\<exists>u w. cs = u @ pat @ w)"
  proof
    assume "\<exists>u w. c # cs = u @ pat @ w"
    then obtain u w where uw: "c # cs = u @ pat @ w" by blast
    show "prefix pat (c # cs) \<or> (\<exists>u w. cs = u @ pat @ w)"
    proof (cases u)
      case Nil
      then show ?thesis using uw by (auto simp: prefix_def)
    next
      case (Cons a u')
      then have "cs = u' @ pat @ w" using uw by simp
      then show ?thesis by blast
    qed
  next
    assume "prefix pat (c # cs) \<or> (\<exists>u w. cs = u @ pat @ w)"
    then show "\<exists>u w. c # cs = u @ pat @ w"
    proof
      assume "prefix pat (c # cs)"
      then obtain w where "c # cs = pat @ w" by (auto simp: prefix_def)
      then have "c # cs = [] @ pat @ w" by simp
      then show ?thesis by blast
    next
      assume "\<exists>u w. cs = u @ pat @ w"
      then obtain u w where "cs = u @ pat @ w" by blast
      then have "c # cs = (c # u) @ pat @ w" by simp
      then show ?thesis by blast
    qed
  qed
  with Cons show ?case by simp
qed

lemma lower_eq_iff_upper_eq: "lower a = lower b \<longleftrightarrow> upper a = upper b"
proof
  assume "lower a = lower b"
  then have "upper (lower a) = upper (lower b)" by simp
  then show "upper a = upper b" by simp
next
  assume "upper a = upper b"
  then have "lower (upper a) = lower (upper b)" by simp
  then show "lower a = lower b" by simp
qed

lemma str_contains_iff: "str_contains pat cell \<longleftrightarrow> contains_ignoring_case cell pat"
proof
  assume "str_contains pat cell"
  then obtain u' w' where "upper cell = u' @ upper pat @ w'"
    by (auto simp: str_contains_def str_in_iff)
  then obtain u vw where c1: "cell = u @ vw" and "upper pat @ w' = upper vw"
    unfolding upper_def by (auto simp: map_eq_append_conv)
  then obtain v w where c2: "vw = v @ w" and "upper v = upper pat"
    unfolding upper_def by (auto simp: append_eq_map_conv)
  with c1 have "cell = u @ v @ w" and "upper v = upper pat" by simp_all
  then show "contains_ignoring_case cell pat"
    unfolding contains_ignoring_case_def lower_eq_iff_upper_eq by blast
next
  assume "contains_ignoring_case cell pat"
  then obtain u v w where c: "cell = u @ v @ w" and "upper v = upper pat"
    unfolding contains_ignoring_case_def lower_eq_iff_upper_eq by blast
  then have "upper cell = upper u @ upper pat @ upper w"
    by (simp add: upper_def)
  then show "str_contains pat cell"
    unfolding str_contains_def str_in_iff by blast
qed

lemma contains_ignoring_case_lower [simp]:
  "contains_ignoring_case cell (lower t) = contains_ignoring_case cell t"
  by (simp add: contains_ignoring_case_def)

subsection \<open>The rows behind the results\<close>

lemma info_row_new [simp]: "info_row (new_location_info row p) = row"
  by (simp add: info_row_def new_location_info_def)

lemma info_row_texts [simp]:
  "info_row (info\<lparr>travel_time_text := t\<rparr>) = info_row info"
  "info_row (info\<lparr>travel_distance_text := d\<rparr>) = info_row info"
  "info_row (info\<lparr>route_geometry_encoded := g\<rparr>) = info_row info"
  by (simp_all add: info_row_def)

lemma set_travel_time_row: "set_travel_time d info = Inr info' \<Longrightarrow> info_row info' = info_row info"
  by (auto simp: set_travel_time_def Let_def split: if_splits sum.splits)

lemma set_travel_distance_row: "set_travel_distance d info = Inr info' \<Longrightarrow> info_row info' = info_row info"
  by (auto simp: set_travel_distance_def split: if_splits sum.splits)

lemma first_route_row: "info_row (fst (first_route res info)) = info_row info"
  by (auto simp: first_route_def split: sum.splits dest!: set_travel_time_row set_travel_distance_row)

lemma on_directions_result_row: "info_row (fst (on_directions_result rt res info)) = info_row info"
  by (auto simp: on_directions_result_def first_route_row split: sum.splits)

lemma on_exception_row [simp]: "info_row (on_exception e info) = info_row info"
  by (cases e) simp_all

lemma try_route_row [simp]: "info_row (try_route rt outcome info) = info_row info"
proof (cases outcome)
  case (Raises e)
  then show ?thesis by (simp add: try_route_def)
next
  case (Returns res)
  obtain info' ex where r: "on_directions_result rt res info = (info', ex)" by (cases "on_directions_result rt res info")
  then have "info_row info' = info_row info"
    using on_directions_result_row [of rt res info] by simp
  with Returns r show ?thesis by (cases ex) (simp_all add: try_route_def)
qed

lemma routed_location_info_row [simp]: "info_row (routed_location_info rt row outcome) = row"
  by (simp add: routed_location_info_def)

subsection \<open>The loops\<close>

lemma route_locations_zip:
  "fst (route_locations rt client origin rows w) =
     map (\<lambda>(row, outcome). routed_location_info rt row outcome)
       (zip rows (directions_outcomes client origin rows w))"
  by (induction rows arbitrary: w) (simp_all add: case_prod_beta Let_def)

lemma length_directions_outcomes [simp]:
  "length (directions_outcomes client origin rows w) = length rows"
  by (induction rows arbitrary: w) (simp_all add: case_prod_beta Let_def)

lemma length_route_locations [simp]:
  "length (fst (route_locations rt client origin rows w)) = length rows"
  by (simp add: route_locations_zip)


lemma route_locations_rows [simp]:
  "map info_row (fst (route_locations rt client origin rows w)) = rows"
  by (induction rows arbitrary: w) (simp_all add: case_prod_beta Let_def)

lemma basic_locations_rows [simp]: "map info_row (basic_locations rows) = rows"
  by (simp add: basic_locations_def comp_def)

lemma find_locations_rows:
  "map info_row (fst (find_locations rt client df term ulat ulon w)) = filtered_df df term"
  by (simp add: find_locations_def Let_def split: option.splits)

lemma find_locations_no_origin:
  "ulat = None \<or> ulon = None \<Longrightarrow>
   find_locations rt client df term ulat ulon w = (basic_locations (filtered_df df term), w)"
  by (auto simp: find_locations_def Let_def basic_locations_def split: option.splits)

lemma find_locations_origin:
  "find_locations rt client df term (Some la) (Some lo) w =
     route_locations rt client (lo, la) (filtered_df df term) w"
  by (simp add: find_locations_def Let_def)

subsection \<open>The handler, field by field\<close>

lemma index_GET:
  "request_method req = GET \<Longrightarrow>
   index rt client store req w =
     (\<lparr>locations = [], search_disease = None, map_center = fst (initial_map store),
       map_zoom = snd (initial_map store), user_lat = None, user_lon = None\<rparr>, w)"
  by (simp add: index_def case_prod_beta)

lemma index_POST:
  assumes "request_method req = POST"
  shows "index rt client store req w =
     (let term = strip (disease_name_field req);
          ulat = fst (parse_user_location rt (form_user_lat req) (form_user_lon req));
          ulon = snd (parse_user_location rt (form_user_lat req) (form_user_lon req));
          cz1 = center_on_user ulat ulon (initial_map store)
      in if lower term \<noteq> [] \<and> data_load_success store \<and> csv_data_df store \<noteq> []
         then (let found = find_locations rt client (csv_data_df store) (lower term) ulat ulon w;
                   cz2 = center_on_found (fst found) ulat ulon cz1
               in (\<lparr>locations = fst found, search_disease = Some term, map_center = fst cz2,
                    map_zoom = snd cz2, user_lat = ulat, user_lon = ulon\<rparr>, snd found))
         else (\<lparr>locations = [], search_disease = Some term, map_center = fst cz1,
                map_zoom = snd cz1, user_lat = ulat, user_lon = ulon\<rparr>, w))"
  using assms by (simp add: index_def case_prod_beta Let_def)

subsection \<open>The fields of the view\<close>

lemma str_in_Nil [simp]: "str_in [] s"
  by (cases s) simp_all

lemma disease_name_field_update [simp]:
  "disease_name_field (req\<lparr>form_disease_name := Some t\<rparr>) = t"
  by (simp add: disease_name_field_def)

lemma index_locations:
  "locations (fst (index rt client store req w)) =
     (if request_method req = POST \<and> lower (strip (disease_name_field req)) \<noteq> [] \<and>
         data_load_success store \<and> csv_data_df store \<noteq> []
      then fst (find_locations rt client (csv_data_df store) (lower (strip (disease_name_field req)))
                 (fst (parse_user_location rt (form_user_lat req) (form_user_lon req)))
                 (snd (parse_user_location rt (form_user_lat req) (form_user_lon req))) w)
      else [])"
  by (cases "request_method req") (simp_all add: index_GET index_POST Let_def)

lemma index_state:
  "snd (index rt client store req w) =
     (if request_method req = POST \<and> lower (strip (disease_name_field req)) \<noteq> [] \<and>
         data_load_success store \<and> csv_data_df store \<noteq> []
      then snd (find_locations rt client (csv_data_df store) (lower (strip (disease_name_field req)))
                 (fst (parse_user_location rt (form_user_lat req) (form_user_lon req)))
                 (snd (parse_user_location rt (form_user_lat req) (form_user_lon req))) w)
      else w)"
  by (cases "request_method req") (simp_all add: index_GET index_POST Let_def)

lemma index_user_location:
  "user_lat (fst (index rt client store req w)) =
     (case request_method req of GET \<Rightarrow> None
      | POST \<Rightarrow> fst (parse_user_location rt (form_user_lat req) (form_user_lon req)))"
  "user_lon (fst (index rt client store req w)) =
     (case request_method req of GET \<Rightarrow> None
      | POST \<Rightarrow> snd (parse_user_location rt (form_user_lat req) (form_user_lon req)))"
  by (cases "request_method req"; simp add: index_GET index_POST Let_def)+

lemma filtered_df_contains:
  "filtered_df df (lower t) = filter (\<lambda>row. contains_ignoring_case (Disease row) t) df"
  by (simp add: filtered_df_def str_contains_iff)

lemma index_rows:
  "map info_row (locations (fst (index rt client store req w))) =
     (if request_method req = POST \<and> strip (disease_name_field req) \<noteq> [] \<and> data_load_success store
      then filter (\<lambda>row. contains_ignoring_case (Disease row) (strip (disease_name_field req)))
             (csv_data_df store)
      else [])"
  by (auto simp: index_locations find_locations_rows filtered_df_contains)

lemma center_on_found_Nil [simp]: "center_on_found [] ulat ulon cz = cz"
  by (simp add: center_on_found_def)

lemma index_map:
  "(map_center (fst (index rt client store req w)), map_zoom (fst (index rt client store req w))) =
     center_on_found (locations (fst (index rt client store req w)))
       (user_lat (fst (index rt client store req w))) (user_lon (fst (index rt client store req w)))
       (center_on_user (user_lat (fst (index rt client store req w)))
          (user_lon (fst (index rt client store req w))) (initial_map store))"
proof (cases "request_method req")
  case GET
  then show ?thesis by (simp add: index_GET center_on_user_def)
next
  case POST
  define ulat where "ulat = fst (parse_user_location rt (form_user_lat req) (form_user_lon req))"
  define ulon where "ulon = snd (parse_user_location rt (form_user_lat req) (form_user_lon req))"
  have u: "user_lat (fst (index rt client store req w)) = ulat"
    "user_lon (fst (index rt client store req w)) = ulon"
    using POST by (simp_all add: index_user_location ulat_def ulon_def)
  have "(map_center (fst (index rt client store req w)), map_zoom (fst (index rt client store req w))) =
     center_on_found (locations (fst (index rt client store req w))) ulat ulon
       (center_on_user ulat ulon (initial_map store))"
    using POST by (simp add: index_POST Let_def ulat_def ulon_def)
  then show ?thesis by (simp only: u)
qed

lemma parse_user_location_pair:
  "parse_user_location rt a b = (Some la, Some lo) \<longleftrightarrow>
     (\<exists>s1 s2. a = Some s1 \<and> s1 \<noteq> [] \<and> py_float rt s1 = Some la \<and>
              b = Some s2 \<and> s2 \<noteq> [] \<and> py_float rt s2 = Some lo)"
  by (auto simp: parse_user_location_def float_if_present_def split: option.splits sum.splits if_splits)

lemma parse_user_location_invalid:
  "float_if_present rt a = Inl () \<or> float_if_present rt b = Inl () \<Longrightarrow>
   parse_user_location rt a b = (None, None)"
  by (auto simp: parse_user_location_def split: sum.splits)

lemma parse_user_location_absent [simp]: "parse_user_location rt None None = (None, None)"
  by (simp add: parse_user_location_def float_if_present_def)

lemma basic_locations_fields:
  "l \<in> set (basic_locations rows) \<Longrightarrow>
   travel_time_text l = ''Requires Location'' \<and> travel_distance_text l = ''Requires Location'' \<and>
   route_geometry_encoded l = JNull"
  by (auto simp: basic_locations_def new_location_info_def)

subsection \<open>The texts of a routed row\<close>






lemma on_exception_text [simp]:
  "travel_time_text (on_exception e info) = error_text e"
  "travel_distance_text (on_exception e info) = error_text e"
  by (cases e; simp add: error_text_def)+






subsection \<open>The branches of a routed row\<close>




subsection \<open>The handler with a user location\<close>

lemma index_rows_matching:
  "map info_row (locations (fst (index rt client store req w))) = matching_rows store req"
  by (simp add: index_rows matching_rows_def filtered_df_contains)


subsection \<open>The examples, evaluated\<close>

lemma example_run_flu:
  "index example_runtime example_client example_store (example_request ''flu'' None None) 0 =
     (\<lparr>locations = basic_locations (take 2 example_rows), search_disease = Some ''flu'',
       map_center = (21, 11), map_zoom = 13, user_lat = None, user_lon = None\<rparr>, 0)"
  by code_simp

lemma example_run_invalid:
  "index example_runtime (recording example_client) example_store
     (example_request ''flu'' (Some ''abc'') (Some ''77.5'')) ([], 0) =
     (\<lparr>locations = basic_locations (take 2 example_rows), search_disease = Some ''flu'',
       map_center = (21, 11), map_zoom = 13, user_lat = None, user_lon = None\<rparr>, ([], 0))"
  by code_simp

lemma example_run_nothing:
  "index example_runtime example_client example_store (example_request ''zzz'' None None) 0 =
     (\<lparr>locations = [], search_disease = Some ''zzz'',
       map_center = (82 / 3, 52 / 3), map_zoom = 10, user_lat = None, user_lon = None\<rparr>, 0)"
  by code_simp

lemma example_run_user_nothing:
  "index example_runtime example_client example_store
     (example_request ''zzz'' (Some ''12.0'') (Some ''77.5'')) 0 =
     (\<lparr>locations = [], search_disease = Some ''zzz'',
       map_center = (155 / 2, 12), map_zoom = 13, user_lat = Some 12, user_lon = Some (155 / 2)\<rparr>, 0)"
  by code_simp

lemma example_run_empty_table:
  "index example_runtime example_client \<lparr>data_load_success = True, csv_data_df = []\<rparr>
     (example_request ''flu'' None None) 0 =
     (\<lparr>locations = [], search_disease = Some ''flu'',
       map_center = default_map_center, map_zoom = 12, user_lat = None, user_lon = None\<rparr>, 0)"
  by code_simp

lemma example_table_mean:
  "(mean (map LON (csv_data_df example_store)), mean (map LAT (csv_data_df example_store))) = (82 / 3, 52 / 3)"
  by code_simp

lemma basic_example_texts:
  "map travel_time_text (basic_locations (take 2 example_rows)) = [''Requires Location'', ''Requires Location'']"
  "map travel_distance_text (basic_locations (take 2 example_rows)) = [''Requires Location'', ''Requires Location'']"
  "map route_geometry_encoded (basic_locations (take 2 example_rows)) = [JNull, JNull]"
  "map lat (basic_locations (take 2 example_rows)) = [10, 12]"
  "map lon (basic_locations (take 2 example_rows)) = [20, 22]"
  by code_simp+

lemma example_run_with_location:
  "index example_runtime example_client example_store (example_request ''l'' (Some ''12.0'') (Some ''77.5'')) 0 =
     (\<lparr>locations =
         [\<lparr>lat = 10, lon = 20, disease_info = ''Flu'', travel_time_text = ''2 min (driving)'',
           travel_distance_text = ''4.20 km (driving)'', route_geometry_encoded = JStr ''_p~iF~ps|U'',
           name = Some ''Dr A'', details = None\<rparr>,
          \<lparr>lat = 12, lon = 22, disease_info = ''Swine flu'', travel_time_text = ''Error: Read timed out'',
           travel_distance_text = ''Error: Read timed out'', route_geometry_encoded = JNull,
           name = None, details = Some ''ward 2''\<rparr>,
          \<lparr>lat = 30, lon = 40, disease_info = ''Malaria'', travel_time_text = ''2 min (driving)'',
           travel_distance_text = ''4.20 km (driving)'', route_geometry_encoded = JStr ''_p~iF~ps|U'',
           name = None, details = None\<rparr>],
       search_disease = Some ''l'', map_center = (155 / 2, 12), map_zoom = 13,
       user_lat = Some 12, user_lon = Some (155 / 2)\<rparr>, 3)"
  by code_simp







section \<open>The properties\<close>



text \<open>
  C2 (no origin, no calls). When the handler has no user latitude or no user longitude
  (the field is absent or empty, or a field failed to parse), the service is left in the
  state in which it was, so no call was made; every location found carries
  \<open>Requires Location\<close> as its time and distance text and no route geometry; and the
  view does not depend on the service at all. With the recording client of the witness,
  the list of recorded calls stays empty.
\<close>

theorem no_origin_no_calls:
  assumes "user_lat (fst (index rt client store req w)) = None \<or>
           user_lon (fst (index rt client store req w)) = None"
  shows "snd (index rt client store req w) = w \<and>
         (\<forall>l\<in>set (locations (fst (index rt client store req w))).
            travel_time_text l = ''Requires Location'' \<and>
            travel_distance_text l = ''Requires Location'' \<and>
            route_geometry_encoded l = JNull) \<and>
         fst (index rt client' store req w') = fst (index rt client store req w)"
proof (cases "request_method req")
  case GET
  then show ?thesis by (simp add: index_GET)
next
  case POST
  define ulat where "ulat = fst (parse_user_location rt (form_user_lat req) (form_user_lon req))"
  define ulon where "ulon = snd (parse_user_location rt (form_user_lat req) (form_user_lon req))"
  have none: "ulat = None \<or> ulon = None"
    using assms POST by (simp add: index_user_location ulat_def ulon_def)
  have f: "find_locations rt c (csv_data_df store) t ulat ulon u =
           (basic_locations (filtered_df (csv_data_df store) t), u)" for c :: "'c directions_client" and t u
    by (rule find_locations_no_origin [OF none])
  have s: "snd (index rt client store req w) = w"
    by (simp add: index_state f ulat_def [symmetric] ulon_def [symmetric])
  have l: "\<forall>l\<in>set (locations (fst (index rt client store req w))).
            travel_time_text l = ''Requires Location'' \<and>
            travel_distance_text l = ''Requires Location'' \<and>
            route_geometry_encoded l = JNull"
    by (auto simp: index_locations f ulat_def [symmetric] ulon_def [symmetric]
        dest: basic_locations_fields)
  have i: "fst (index rt client' store req w') = fst (index rt client store req w)"
    using POST by (simp add: index_POST Let_def f ulat_def [symmetric] ulon_def [symmetric])
  from s l i show ?thesis by blast
qed

theorem no_origin_no_calls_witness:
  "user_lat (fst (index example_runtime (recording example_client) example_store
                    (example_request ''flu'' (Some ''abc'') (Some ''77.5'')) ([], 0))) = None \<and>
   snd (index example_runtime (recording example_client) example_store
          (example_request ''flu'' (Some ''abc'') (Some ''77.5'')) ([], 0)) = ([], 0) \<and>
   map travel_time_text
     (locations (fst (index example_runtime (recording example_client) example_store
                        (example_request ''flu'' (Some ''abc'') (Some ''77.5'')) ([], 0)))) =
     [''Requires Location'', ''Requires Location''] \<and>
   map travel_distance_text
     (locations (fst (index example_runtime (recording example_client) example_store
                        (example_request ''flu'' (Some ''abc'') (Some ''77.5'')) ([], 0)))) =
     [''Requires Location'', ''Requires Location''] \<and>
   map route_geometry_encoded
     (locations (fst (index example_runtime (recording example_client) example_store
                        (example_request ''flu'' (Some ''abc'') (Some ''77.5'')) ([], 0)))) =
     [JNull, JNull] \<and>
   fst (index example_runtime example_client example_store
          (example_request ''flu'' (Some ''abc'') (Some ''77.5'')) 7) =
   fst (index example_runtime (recording example_client) example_store
          (example_request ''flu'' (Some ''abc'') (Some ''77.5'')) ([], 0))"
proof -
  have h: "user_lat (fst (index example_runtime (recording example_client) example_store
                    (example_request ''flu'' (Some ''abc'') (Some ''77.5'')) ([], 0))) = None"
    by (simp add: example_run_invalid)
  have t: "map travel_time_text
     (locations (fst (index example_runtime (recording example_client) example_store
                        (example_request ''flu'' (Some ''abc'') (Some ''77.5'')) ([], 0)))) =
     [''Requires Location'', ''Requires Location'']"
    "map travel_distance_text
     (locations (fst (index example_runtime (recording example_client) example_store
                        (example_request ''flu'' (Some ''abc'') (Some ''77.5'')) ([], 0)))) =
     [''Requires Location'', ''Requires Location'']"
    "map route_geometry_encoded
     (locations (fst (index example_runtime (recording example_client) example_store
                        (example_request ''flu'' (Some ''abc'') (Some ''77.5'')) ([], 0)))) =
     [JNull, JNull]"
    by (simp_all add: example_run_invalid basic_example_texts)
  show ?thesis
    using no_origin_no_calls [OF disjI1, OF h, of example_client 7] h t by blast
qed

text \<open>
  C3 (priority of the map centre). With \<open>v\<close> the view that the handler renders: when
  both user coordinates are present the centre is \<open>[lon, lat]\<close> of the user, at zoom 13,
  whatever the locations found; otherwise, when locations were found, it is the mean of
  their coordinates, at zoom 13; otherwise, when the table is loaded and not empty, it is
  the mean of the table, at zoom 10; otherwise it is the default centre, at zoom 12. The
  user coordinates of the view are those parsed from a POST request, and both are
  present exactly when both fields are non-empty texts that \<open>float\<close> accepts.
\<close>

theorem map_center_priority:
  "let v = fst (index rt client store req w)
   in (map_center v, map_zoom v) =
        (case (user_lat v, user_lon v) of
           (Some la, Some lo) \<Rightarrow> ((lo, la), 13)
         | _ \<Rightarrow>
             if locations v \<noteq> []
             then ((mean (map lon (locations v)), mean (map lat (locations v))), 13)
             else if data_load_success store \<and> csv_data_df store \<noteq> []
             then ((mean (map LON (csv_data_df store)), mean (map LAT (csv_data_df store))), 10)
             else (default_map_center, 12)) \<and>
      (user_lat v, user_lon v) =
        (case request_method req of
           GET \<Rightarrow> (None, None)
         | POST \<Rightarrow> parse_user_location rt (form_user_lat req) (form_user_lon req)) \<and>
      (parse_user_location rt (form_user_lat req) (form_user_lon req) = (Some la, Some lo) \<longleftrightarrow>
         (\<exists>s1 s2. form_user_lat req = Some s1 \<and> s1 \<noteq> [] \<and> py_float rt s1 = Some la \<and>
                  form_user_lon req = Some s2 \<and> s2 \<noteq> [] \<and> py_float rt s2 = Some lo))"
proof -
  define v where "v = fst (index rt client store req w)"
  have 1: "(map_center v, map_zoom v) =
        (case (user_lat v, user_lon v) of
           (Some la, Some lo) \<Rightarrow> ((lo, la), 13)
         | _ \<Rightarrow>
             if locations v \<noteq> []
             then ((mean (map lon (locations v)), mean (map lat (locations v))), 13)
             else if data_load_success store \<and> csv_data_df store \<noteq> []
             then ((mean (map LON (csv_data_df store)), mean (map LAT (csv_data_df store))), 10)
             else (default_map_center, 12))"
    unfolding v_def index_map
    by (auto simp: center_on_found_def center_on_user_def initial_map_def Let_def split: option.splits)
  have 2: "(user_lat v, user_lon v) =
        (case request_method req of
           GET \<Rightarrow> (None, None)
         | POST \<Rightarrow> parse_user_location rt (form_user_lat req) (form_user_lon req))"
    unfolding v_def by (simp add: index_user_location split: http_method.splits)
  show ?thesis
    unfolding Let_def v_def [symmetric] using 1 2 parse_user_location_pair by blast
qed

theorem map_center_priority_witness:
  "map_center (fst (index example_runtime example_client example_store
                     (example_request ''l'' (Some ''12.0'') (Some ''77.5'')) 0)) = (155 / 2, 12) \<and>
   map_center (fst (index example_runtime example_client example_store
                     (example_request ''zzz'' (Some ''12.0'') (Some ''77.5'')) 0)) = (155 / 2, 12) \<and>
   map_center (fst (index example_runtime example_client example_store
                     (example_request ''flu'' None None) 0)) = (21, 11) \<and>
   map_center (fst (index example_runtime example_client example_store
                     (example_request ''zzz'' None None) 0)) =
     (mean (map LON (csv_data_df example_store)), mean (map LAT (csv_data_df example_store))) \<and>
   map_center (fst (index example_runtime example_client \<lparr>data_load_success = True, csv_data_df = []\<rparr>
                     (example_request ''flu'' None None) 0)) = default_map_center"
proof -
  have "map_center (fst (index example_runtime example_client example_store
                     (example_request ''l'' (Some ''12.0'') (Some ''77.5'')) 0)) = (155 / 2, 12)"
    using map_center_priority [of example_runtime example_client example_store
        "example_request ''l'' (Some ''12.0'') (Some ''77.5'')" 0]
    by (simp add: Let_def example_run_with_location)
  moreover have "map_center (fst (index example_runtime example_client example_store
                     (example_request ''zzz'' (Some ''12.0'') (Some ''77.5'')) 0)) = (155 / 2, 12)"
    using map_center_priority [of example_runtime example_client example_store
        "example_request ''zzz'' (Some ''12.0'') (Some ''77.5'')" 0]
    by (simp add: Let_def example_run_user_nothing)
  moreover have "map_center (fst (index example_runtime example_client example_store
                     (example_request ''flu'' None None) 0)) = (21, 11)"
    using map_center_priority [of example_runtime example_client example_store
        "example_request ''flu'' None None" 0]
    by (simp add: Let_def example_run_flu)
  moreover have "map_center (fst (index example_runtime example_client example_store
                     (example_request ''zzz'' None None) 0)) =
     (mean (map LON (csv_data_df example_store)), mean (map LAT (csv_data_df example_store)))"
    using map_center_priority [of example_runtime example_client example_store
        "example_request ''zzz'' None None" 0]
    by (simp add: Let_def example_run_nothing example_table_mean)
  moreover have "map_center (fst (index example_runtime example_client \<lparr>data_load_success = True, csv_data_df = []\<rparr>
                     (example_request ''flu'' None None) 0)) = default_map_center"
    using map_center_priority [of example_runtime example_client "\<lparr>data_load_success = True, csv_data_df = []\<rparr>"
        "example_request ''flu'' None None" 0]
    by (simp add: Let_def example_run_empty_table)
  ultimately show ?thesis by blast
qed

text \<open>
  C4 (blank term). When the submitted term is empty or consists of white space only,
  the handler finds no locations, whatever the table holds, and calls no service. The
  witness runs the handler on a table of three rows, all of which the empty pattern
  alone would match.
\<close>

theorem blank_term_finds_nothing:
  assumes "\<forall>c\<in>set (disease_name_field req). is_space c"
  shows "locations (fst (index rt client store req w)) = [] \<and> snd (index rt client store req w) = w"
  using strip_blank [OF assms] by (simp add: index_locations index_state)

theorem blank_term_finds_nothing_witness:
  "list_all is_space (disease_name_field (example_request [CHR '' '', CHR 0x09, CHR '' ''] None None)) \<and>
   csv_data_df example_store \<noteq> [] \<and>
   filtered_df (csv_data_df example_store) [] = csv_data_df example_store \<and>
   locations (fst (index example_runtime example_client example_store
                (example_request [CHR '' '', CHR 0x09, CHR '' ''] None None) 0)) = [] \<and>
   snd (index example_runtime example_client example_store
          (example_request [CHR '' '', CHR 0x09, CHR '' ''] None None) 0) = 0"
proof -
  have b: "list_all is_space (disease_name_field (example_request [CHR '' '', CHR 0x09, CHR '' ''] None None))"
    by code_simp
  then have h: "\<forall>c\<in>set (disease_name_field (example_request [CHR '' '', CHR 0x09, CHR '' ''] None None)). is_space c"
    by (simp only: list_all_iff)
  have "csv_data_df example_store \<noteq> []"
    by (simp add: example_store_def example_rows_def)
  moreover have "filtered_df (csv_data_df example_store) [] = csv_data_df example_store"
    by (simp add: filtered_df_def str_contains_def upper_def)
  ultimately show ?thesis
    using blank_term_finds_nothing [OF h, of example_runtime example_client example_store 0] b by blast
qed

text \<open>
  C5 (case-insensitive filter). The locations found for a term \<open>t\<close> are those found
  for \<open>lower t\<close>; the category of every location found contains the stripped term
  ignoring case; the rows behind the locations are exactly the rows of the table whose
  category contains the stripped term ignoring case, in the order of the table.
\<close>

theorem search_ignores_case:
  "locations (fst (index rt client store (req\<lparr>form_disease_name := Some (lower t)\<rparr>) w)) =
   locations (fst (index rt client store (req\<lparr>form_disease_name := Some t\<rparr>) w)) \<and>
   (\<forall>l\<in>set (locations (fst (index rt client store (req\<lparr>form_disease_name := Some t\<rparr>) w))).
      contains_ignoring_case (disease_info l) (strip t)) \<and>
   map info_row (locations (fst (index rt client store (req\<lparr>form_disease_name := Some t\<rparr>) w))) =
     (if request_method req = POST \<and> strip t \<noteq> [] \<and> data_load_success store
      then filter (\<lambda>row. contains_ignoring_case (Disease row) (strip t)) (csv_data_df store)
      else []) \<and>
   subseq (map info_row (locations (fst (index rt client store (req\<lparr>form_disease_name := Some t\<rparr>) w))))
     (csv_data_df store)"
proof -
  let ?v = "fst (index rt client store (req\<lparr>form_disease_name := Some t\<rparr>) w)"
  have 1: "locations (fst (index rt client store (req\<lparr>form_disease_name := Some (lower t)\<rparr>) w)) =
           locations ?v"
    by (simp add: index_locations strip_lower)
  have 3: "map info_row (locations ?v) =
     (if request_method req = POST \<and> strip t \<noteq> [] \<and> data_load_success store
      then filter (\<lambda>row. contains_ignoring_case (Disease row) (strip t)) (csv_data_df store)
      else [])"
    by (simp add: index_rows)
  have 2: "\<forall>l\<in>set (locations ?v). contains_ignoring_case (disease_info l) (strip t)"
  proof
    fix l assume "l \<in> set (locations ?v)"
    then have "info_row l \<in> set (map info_row (locations ?v))" by simp
    then have "contains_ignoring_case (Disease (info_row l)) (strip t)"
      unfolding 3 by (simp split: if_splits)
    then show "contains_ignoring_case (disease_info l) (strip t)"
      by (simp add: info_row_def)
  qed
  have 4: "subseq (map info_row (locations ?v)) (csv_data_df store)"
    unfolding 3 by simp
  from 1 2 3 4 show ?thesis by blast
qed

theorem search_ignores_case_witness:
  "locations (fst (index example_runtime example_client example_store (example_request ''flu'' None None) 0)) =
   locations (fst (index example_runtime example_client example_store (example_request ''Flu'' None None) 0)) \<and>
   list_all (\<lambda>l. contains_ignoring_case (disease_info l) ''Flu'')
     (locations (fst (index example_runtime example_client example_store
                       (example_request ''Flu'' None None) 0))) \<and>
   map disease_info (locations (fst (index example_runtime example_client example_store
                                      (example_request ''Flu'' None None) 0))) = [''Flu'', ''Swine flu''] \<and>
   subseq (map info_row (locations (fst (index example_runtime example_client example_store
                                          (example_request ''Flu'' None None) 0))))
     (csv_data_df example_store)"
proof -
  have l: "lower ''Flu'' = ''flu''" by code_simp
  have s: "strip ''Flu'' = ''Flu''" by code_simp
  have r: "(example_request [] None None)\<lparr>form_disease_name := Some t\<rparr> = example_request t None None" for t
    by (simp add: example_request_def)
  have e: "map disease_info (locations (fst (index example_runtime example_client example_store
             (example_request ''Flu'' None None) 0))) = [''Flu'', ''Swine flu'']"
    by code_simp
  show ?thesis
    using search_ignores_case [where rt = example_runtime and client = example_client
        and store = example_store and req = "example_request [] None None" and t = "''Flu''" and w = 0] e
    unfolding r l s list_all_iff by blast
qed




text \<open>
  C7 (duration text). For a duration of \<open>x \<ge> 0\<close> seconds, given as a JSON integer or
  float, lines 204--214 compute a number of minutes and set the text to
  \<open>H hr M min (driving)\<close> with \<open>H = minutes div 60\<close> and \<open>M = minutes mod 60\<close> when the
  duration is at least one hour (\<open>3600 \<le> x\<close>), and to \<open>M min (driving)\<close> with
  \<open>M = minutes\<close> otherwise. The minutes are the seconds divided by 60 and truncated,
  \<open>\<lfloor>x / 60\<rfloor>\<close>; for a float this is exact below \<open>2 ^ 53\<close> seconds, beyond which the
  float quotient itself is rounded. The witness evaluates 125 seconds to
  \<open>2 min (driving)\<close> and 3900 seconds to \<open>1 hr 5 min (driving)\<close>.
\<close>

theorem travel_time_text_format:
  assumes "number_value duration_seconds = Some x" and "0 \<le> x"
  shows "\<exists>minutes. int_floordiv_60 duration_seconds = Inr minutes \<and>
           (x < 2 ^ 53 \<longrightarrow> minutes = \<lfloor>x / 60\<rfloor>) \<and>
           set_travel_time duration_seconds info =
             Inr (info\<lparr>travel_time_text :=
                   (if 3600 \<le> x
                    then str_int (minutes div 60) @ '' hr '' @ str_int (minutes mod 60) @ '' min (driving)''
                    else str_int minutes @ '' min (driving)'')\<rparr>)"
proof -
  obtain m where m: "int_floordiv_60 duration_seconds = Inr m"
    and ex: "x < 2 ^ 53 \<longrightarrow> m = \<lfloor>x / 60\<rfloor>" and hr: "3600 \<le> x \<longleftrightarrow> 60 \<le> m"
    using minutes_of_seconds [OF assms] by blast
  have nn: "duration_seconds \<noteq> JNull" using assms(1) by auto
  have "0 < m div 60 \<longleftrightarrow> 60 \<le> m" by (simp add: pos_imp_zdiv_pos_iff)
  then have "set_travel_time duration_seconds info =
             Inr (info\<lparr>travel_time_text :=
                   (if 3600 \<le> x
                    then str_int (m div 60) @ '' hr '' @ str_int (m mod 60) @ '' min (driving)''
                    else str_int m @ '' min (driving)'')\<rparr>)"
    using nn m hr by (simp add: set_travel_time_def Let_def)
  with m ex show ?thesis by blast
qed

theorem travel_time_text_format_witness:
  "number_value (JInt 125) = Some 125 \<and> (0::real) \<le> 125 \<and>
   set_travel_time (JInt 125) example_info = Inr (example_info\<lparr>travel_time_text := ''2 min (driving)''\<rparr>) \<and>
   number_value (JFloat 3900) = Some 3900 \<and> (0::real) \<le> 3900 \<and>
   set_travel_time (JFloat 3900) example_info = Inr (example_info\<lparr>travel_time_text := ''1 hr 5 min (driving)''\<rparr>)"
  using travel_time_text_format [of "JInt 125" 125 example_info]
    travel_time_text_format [of "JFloat 3900" 3900 example_info]
  by (auto simp: str_int_def str_nat.simps digit_char_def)

text \<open>
  C8 (distance text). For a distance of \<open>x\<close> metres, given as a JSON integer or float
  within the range of the doubles, lines 216--221 divide by 1000, which gives the double
  \<open>km\<close> nearest to \<open>x / 1000\<close>, and set the text to \<open>km\<close> with exactly two decimal
  places followed by \<open>km (driving)\<close>: a minus sign when \<open>km\<close> is negative, the decimal
  digits of a natural number \<open>a\<close>, a point, and two digits \<open>b\<close>, \<open>c\<close>, where
  \<open>a.bc\<close> is within half a hundredth of \<open>|km|\<close>. The witness evaluates 4200 metres to
  \<open>4.20 km (driving)\<close>.
\<close>

theorem travel_distance_text_format:
  assumes "number_value distance_meters = Some x" and "\<bar>x\<bar> < 2 ^ 1024"
  shows "\<exists>km a b c.
           true_div_1000 distance_meters = Inr km \<and> km = RN (x / 1000) \<and>
           \<bar>km - x / 1000\<bar> \<le> \<bar>x / 1000\<bar> / 2 ^ 53 \<and>
           b < 10 \<and> c < 10 \<and> \<bar>real a + real b / 10 + real c / 100 - \<bar>km\<bar>\<bar> \<le> 1 / 200 \<and>
           set (str_nat a) \<subseteq> set ''0123456789'' \<and>
           set_travel_distance distance_meters info =
             Inr (info\<lparr>travel_distance_text :=
                   (if km < 0 then ''-'' else []) @ str_nat a @ ''.'' @ [digit_char b, digit_char c] @
                   '' km (driving)''\<rparr>)"
proof -
  define km where "km = RN (x / 1000)"
  have km: "true_div_1000 distance_meters = Inr km"
    unfolding km_def by (rule true_div_1000_number [OF assms])
  have err: "\<bar>km - x / 1000\<bar> \<le> \<bar>x / 1000\<bar> / 2 ^ 53"
    unfolding km_def by (rule RN_error)
  obtain a b c where b: "b < 10" and c: "c < 10"
    and near: "\<bar>real a + real b / 10 + real c / 100 - \<bar>km\<bar>\<bar> \<le> 1 / 200"
    and fmt: "format_2f km = (if km < 0 then ''-'' else []) @ str_nat a @ ''.'' @ [digit_char b, digit_char c]"
    using format_2f_places [of km] by blast
  have nn: "distance_meters \<noteq> JNull" using assms(1) by auto
  have "set_travel_distance distance_meters info =
             Inr (info\<lparr>travel_distance_text :=
                   (if km < 0 then ''-'' else []) @ str_nat a @ ''.'' @ [digit_char b, digit_char c] @
                   '' km (driving)''\<rparr>)"
    using nn km fmt by (simp add: set_travel_distance_def)
  with km err b c near str_nat_digits [of a] show ?thesis unfolding km_def by blast
qed

theorem travel_distance_text_format_witness:
  "number_value (JInt 4200) = Some 4200 \<and> \<bar>4200 :: real\<bar> < 2 ^ 1024 \<and>
   (\<exists>km a b c.
           true_div_1000 (JInt 4200) = Inr km \<and> km = RN (4200 / 1000) \<and>
           \<bar>km - 4200 / 1000\<bar> \<le> \<bar>4200 / 1000\<bar> / 2 ^ 53 \<and>
           b < 10 \<and> c < 10 \<and> \<bar>real a + real b / 10 + real c / 100 - \<bar>km\<bar>\<bar> \<le> 1 / 200 \<and>
           set (str_nat a) \<subseteq> set ''0123456789'' \<and>
           set_travel_distance (JInt 4200) example_info =
             Inr (example_info\<lparr>travel_distance_text :=
                   (if km < 0 then ''-'' else []) @ str_nat a @ ''.'' @ [digit_char b, digit_char c] @
                   '' km (driving)''\<rparr>)) \<and>
   set_travel_distance (JInt 4200) example_info =
     Inr (example_info\<lparr>travel_distance_text := ''4.20 km (driving)''\<rparr>)"
proof -
  have h1: "number_value (JInt 4200) = Some 4200" by simp
  have h2: "\<bar>4200 :: real\<bar> < 2 ^ 1024" by simp
  have "set_travel_distance (JInt 4200) example_info =
     Inr (example_info\<lparr>travel_distance_text := ''4.20 km (driving)''\<rparr>)"
    by (simp add: set_travel_distance_def int_true_div_1000_4200 format_2f_4200)
  with h1 h2 travel_distance_text_format [OF h1 h2, of example_info] show ?thesis by blast
qed

text \<open>
  C9 (coordinates that do not parse). The claim says that the map then falls back to the
  mean of the table. The handler treats the request exactly as one without user
  coordinates, and for such a request lines 267--274 centre the map on the locations
  found when there are any; the mean of the table (or the default centre, for an empty
  table) is used only when nothing was found. The counterexample is a search for
  \<open>flu\<close> with the latitude \<open>abc\<close>: the centre is the mean (21, 11) of the two
  matches, not the mean of the three rows of the table.
\<close>

theorem invalid_coordinates_as_absent:
  assumes "request_method req = POST"
    and "float_if_present rt (form_user_lat req) = Inl () \<or> float_if_present rt (form_user_lon req) = Inl ()"
  shows "let v = fst (index rt client store req w)
         in user_lat v = None \<and> user_lon v = None \<and>
            index rt client store req w =
              index rt client store (req\<lparr>form_user_lat := None, form_user_lon := None\<rparr>) w \<and>
            map_center v =
              (if locations v \<noteq> []
               then (mean (map lon (locations v)), mean (map lat (locations v)))
               else if data_load_success store \<and> csv_data_df store \<noteq> []
               then (mean (map LON (csv_data_df store)), mean (map LAT (csv_data_df store)))
               else default_map_center)"
proof -
  define v where "v = fst (index rt client store req w)"
  have p: "parse_user_location rt (form_user_lat req) (form_user_lon req) = (None, None)"
    by (rule parse_user_location_invalid [OF assms(2)])
  have u: "user_lat v = None" "user_lon v = None"
    unfolding v_def using assms(1) by (simp_all add: index_user_location p)
  have e: "index rt client store req w =
           index rt client store (req\<lparr>form_user_lat := None, form_user_lon := None\<rparr>) w"
    using assms(1) by (simp add: index_POST p disease_name_field_def)
  have "(map_center v, map_zoom v) =
          center_on_found (locations v) None None (center_on_user None None (initial_map store))"
    unfolding v_def index_map using u by (simp add: v_def)
  then have c: "map_center v =
              (if locations v \<noteq> []
               then (mean (map lon (locations v)), mean (map lat (locations v)))
               else if data_load_success store \<and> csv_data_df store \<noteq> []
               then (mean (map LON (csv_data_df store)), mean (map LAT (csv_data_df store)))
               else default_map_center)"
    by (auto simp: center_on_found_def center_on_user_def initial_map_def Let_def split: if_splits)
  show ?thesis unfolding Let_def v_def [symmetric] using u e c by blast
qed

theorem invalid_coordinates_as_absent_witness:
  "request_method (example_request ''flu'' (Some ''abc'') (Some ''77.5'')) = POST \<and>
   float_if_present example_runtime (form_user_lat (example_request ''flu'' (Some ''abc'') (Some ''77.5''))) = Inl () \<and>
   user_lat (fst (index example_runtime example_client example_store
                    (example_request ''flu'' (Some ''abc'') (Some ''77.5'')) 0)) = None \<and>
   user_lon (fst (index example_runtime example_client example_store
                    (example_request ''flu'' (Some ''abc'') (Some ''77.5'')) 0)) = None \<and>
   index example_runtime example_client example_store (example_request ''flu'' (Some ''abc'') (Some ''77.5'')) 0 =
   index example_runtime example_client example_store (example_request ''flu'' None None) 0 \<and>
   map_center (fst (index example_runtime example_client example_store
                      (example_request ''flu'' (Some ''abc'') (Some ''77.5'')) 0)) = (21, 11)"
proof -
  have m: "request_method (example_request ''flu'' (Some ''abc'') (Some ''77.5'')) = POST"
    by (simp add: example_request_def)
  have f: "float_if_present example_runtime
             (form_user_lat (example_request ''flu'' (Some ''abc'') (Some ''77.5''))) = Inl ()"
    by (simp add: example_request_def example_runtime_def float_if_present_def)
  have r: "(example_request ''flu'' (Some ''abc'') (Some ''77.5''))\<lparr>form_user_lat := None, form_user_lon := None\<rparr> =
           example_request ''flu'' None None"
    by (simp add: example_request_def)
  show ?thesis
    using invalid_coordinates_as_absent [OF m disjI1, OF f, of example_client example_store 0] m f
    unfolding r Let_def by (simp add: example_run_flu)
qed

theorem invalid_coordinates_counterexample:
  "request_method (example_request ''flu'' (Some ''abc'') (Some ''77.5'')) = POST \<and>
   float_if_present example_runtime (form_user_lat (example_request ''flu'' (Some ''abc'') (Some ''77.5''))) = Inl () \<and>
   data_load_success example_store \<and> csv_data_df example_store \<noteq> [] \<and>
   map_center (fst (index example_runtime (recording example_client) example_store
                      (example_request ''flu'' (Some ''abc'') (Some ''77.5'')) ([], 0))) = (21, 11) \<and>
   (mean (map LON (csv_data_df example_store)), mean (map LAT (csv_data_df example_store))) = (82 / 3, 52 / 3) \<and>
   map_center (fst (index example_runtime (recording example_client) example_store
                      (example_request ''flu'' (Some ''abc'') (Some ''77.5'')) ([], 0))) \<noteq>
     (mean (map LON (csv_data_df example_store)), mean (map LAT (csv_data_df example_store)))"
proof -
  have "request_method (example_request ''flu'' (Some ''abc'') (Some ''77.5'')) = POST"
    by (simp add: example_request_def)
  moreover have "float_if_present example_runtime
             (form_user_lat (example_request ''flu'' (Some ''abc'') (Some ''77.5''))) = Inl ()"
    by (simp add: example_request_def example_runtime_def float_if_present_def)
  moreover have "data_load_success example_store \<and> csv_data_df example_store \<noteq> []"
    by (simp add: example_store_def example_rows_def)
  moreover have "map_center (fst (index example_runtime (recording example_client) example_store
                      (example_request ''flu'' (Some ''abc'') (Some ''77.5'')) ([], 0))) = (21, 11)"
    by (simp add: example_run_invalid)
  moreover have "(21 :: real, 11 :: real) \<noteq> (82 / 3, 52 / 3)"
    by simp
  ultimately show ?thesis
    by (simp only: example_table_mean simp_thms)
qed



end
